theory Spec2Isabelle
  imports Main
begin

section \<open>Data model\<close>

text \<open>
  The repository holds two variants of one note-taking server: the paginated variant
  (\<^verbatim>\<open>src/unnamed/part_000\<close>) and the simple variant (\<^verbatim>\<open>src/main.go\<close>). Each handler is
  embedded as a function from the request and the notes table to the response and the
  new table; what the database driver and the template engine do is a further argument.
  Where both variants declare a function of the same name, the one of \<^verbatim>\<open>main.go\<close>
  carries the suffix \<open>_main\<close>.
\<close>

text \<open>\<^verbatim>\<open>type Note struct\<close> of the paginated variant: \<open>Id\<close> is an \<^verbatim>\<open>int64\<close>.\<close>

record Note =
  Id_note :: int
  Title :: string
  Content :: string

text \<open>\<^verbatim>\<open>type Note struct\<close> of the simple variant: \<open>Id\<close> is a \<^verbatim>\<open>string\<close>.\<close>

record Note_main =
  Id_main :: string
  Title_main :: string
  Content_main :: string

record IndexPageData =
  Notes :: "Note list"
  Page :: int
  HasNext :: bool
  HasPrev :: bool
  NextPage :: int
  PrevPage :: int

subsection \<open>Go integers and their decimal text\<close>

text \<open>
  Go's \<^verbatim>\<open>int\<close> is taken to be 64 bits wide (a 64-bit platform), like \<^verbatim>\<open>int64\<close>.
  Arithmetic that can leave the range wraps around.
\<close>

definition MaxInt64 :: int where
  "MaxInt64 = 9223372036854775807"

definition MinInt64 :: int where
  "MinInt64 = - 9223372036854775808"

definition wrap64 :: "int \<Rightarrow> int" where
  "wrap64 x = (x + 9223372036854775808) mod 18446744073709551616 - 9223372036854775808"

definition digit_char :: "nat \<Rightarrow> char" where
  "digit_char d = char_of (48 + d)"

fun digits :: "nat \<Rightarrow> string" where
  "digits n = (if n < 10 then [digit_char n] else digits (n div 10) @ [digit_char (n mod 10)])"

text \<open>\<^verbatim>\<open>fmt.Sprintf("%d", id)\<close> and the conversion of an integer column to a Go string.\<close>

definition show_int :: "int \<Rightarrow> string" where
  "show_int i = (if i < 0 then CHR ''-'' # digits (nat (- i)) else digits (nat i))"

definition digit_val :: "char \<Rightarrow> nat option" where
  "digit_val c = (let v = of_char c :: nat in if 48 \<le> v \<and> v \<le> 57 then Some (v - 48) else None)"

text \<open>The digit loop of \<^verbatim>\<open>strconv.Atoi\<close>: any byte that is not a decimal digit is a syntax error.\<close>

fun parse_digits :: "string \<Rightarrow> nat \<Rightarrow> nat option" where
  "parse_digits [] acc = Some acc"
| "parse_digits (c # cs) acc =
     (case digit_val c of None \<Rightarrow> None | Some d \<Rightarrow> parse_digits cs (acc * 10 + d))"

text \<open>
  The reading of \<^verbatim>\<open>strconv.Atoi\<close> before its range check: an optional sign, then at
  least one decimal digit and nothing else.
\<close>

definition parse_int :: "string \<Rightarrow> int option" where
  "parse_int s =
     (case s of
        [] \<Rightarrow> None
      | c # cs \<Rightarrow>
          (let neg = (c = CHR ''-'');
               ds = (if c = CHR ''-'' \<or> c = CHR ''+'' then cs else s)
           in if ds = [] then None
              else (case parse_digits ds 0 of
                      None \<Rightarrow> None
                    | Some n \<Rightarrow> Some (if neg then - int n else int n))))"

text \<open>
  \<^verbatim>\<open>strconv.Atoi\<close>: a value outside the range of \<^verbatim>\<open>int\<close> is an error as well.
  \<open>None\<close> stands for \<^verbatim>\<open>err != nil\<close>.
\<close>

definition Atoi :: "string \<Rightarrow> int option" where
  "Atoi s =
     (case parse_int s of
        None \<Rightarrow> None
      | Some v \<Rightarrow> if MinInt64 \<le> v \<and> v \<le> MaxInt64 then Some v else None)"

subsection \<open>Requests and responses\<close>

text \<open>
  The parts of \<^verbatim>\<open>*http.Request\<close> the handlers read: the method, the parameters of the URL's
  query and the parameters of a form-encoded body, each in the order of appearance.
\<close>

record request =
  Method :: string
  URLQuery :: "(string \<times> string) list"
  PostForm :: "(string \<times> string) list"

text \<open>\<^verbatim>\<open>url.Values.Get\<close>: the first value of the key, the empty string without one.\<close>

definition Get :: "(string \<times> string) list \<Rightarrow> string \<Rightarrow> string" where
  "Get vs key = (case map_of vs key of None \<Rightarrow> [] | Some v \<Rightarrow> v)"

text \<open>
  \<^verbatim>\<open>r.FormValue\<close>: the body is parsed for POST, PUT and PATCH only; its values come
  before those of the URL's query.
\<close>

definition FormValue :: "request \<Rightarrow> string \<Rightarrow> string" where
  "FormValue r key =
     Get ((if Method r = ''POST'' \<or> Method r = ''PUT'' \<or> Method r = ''PATCH''
           then PostForm r else []) @ URLQuery r) key"

datatype error = ErrNoRows | ErrArgs | ErrConstraint | ErrFull | ErrOther string

text \<open>The text of a response: a literal of the source, or \<^verbatim>\<open>err.Error()\<close>.\<close>

datatype message = Text string | ErrorText error

datatype page = IndexPage IndexPageData | NotePage Note | NoteMainPage Note_main

text \<open>
  What a handler does to its \<^verbatim>\<open>http.ResponseWriter\<close>: \<^verbatim>\<open>http.Error\<close> with a status and
  a text, \<^verbatim>\<open>http.Redirect\<close> to a URL with a status, or the execution of a named template
  on its data, after setting the content type where the source sets one.
\<close>

datatype response =
    HttpError nat message
  | Redirect string nat
  | Render string "string option" page

definition StatusSeeOther :: nat where "StatusSeeOther = 303"
definition StatusBadRequest :: nat where "StatusBadRequest = 400"
definition StatusNotFound :: nat where "StatusNotFound = 404"
definition StatusMethodNotAllowed :: nat where "StatusMethodNotAllowed = 405"
definition StatusInternalServerError :: nat where "StatusInternalServerError = 500"

section \<open>The storage\<close>

text \<open>
  The table \<^verbatim>\<open>notes(id INTEGER PRIMARY KEY AUTOINCREMENT, title TEXT NOT NULL,
  content TEXT NOT NULL)\<close> of \<^verbatim>\<open>initDB\<close>: its rows in storage order, and the largest row id
  ever handed out (the table's entry in \<^verbatim>\<open>sqlite_sequence\<close>).
\<close>

record db =
  notes_tbl :: "Note list"
  seq :: int

definition empty_db :: db where
  "empty_db = \<lparr>notes_tbl = [], seq = 0\<rparr>"

text \<open>
  What the schema keeps of every table: the key is unique and a positive \<^verbatim>\<open>int64\<close>, and
  the sequence never runs backwards.
\<close>

definition wf_db :: "db \<Rightarrow> bool" where
  "wf_db d =
     (distinct (map Id_note (notes_tbl d)) \<and>
      list_all (\<lambda>n. 1 \<le> Id_note n \<and> Id_note n \<le> MaxInt64) (notes_tbl d) \<and>
      0 \<le> seq d \<and> seq d \<le> MaxInt64)"

datatype sql_value = SqlNull | SqlInt int | SqlText string

text \<open>The five statements of the source, by their text.\<close>

datatype stmt =
    SelectPage   \<comment> \<open>\<^verbatim>\<open>SELECT id, title, content FROM notes LIMIT ? OFFSET ?\<close>\<close>
  | SelectById   \<comment> \<open>\<^verbatim>\<open>SELECT id, title, content FROM notes WHERE id = ?\<close>\<close>
  | InsertNote   \<comment> \<open>\<^verbatim>\<open>INSERT INTO notes (title, content) VALUES (?, ?)\<close>\<close>
  | UpdateNote   \<comment> \<open>\<^verbatim>\<open>UPDATE notes SET title = ?, content = ? WHERE id = ?\<close>\<close>
  | DeleteNote   \<comment> \<open>\<^verbatim>\<open>DELETE FROM notes WHERE id = ?\<close>\<close>

fun placeholders :: "stmt \<Rightarrow> nat" where
  "placeholders SelectPage = 2"
| "placeholders SelectById = 1"
| "placeholders InsertNote = 2"
| "placeholders UpdateNote = 3"
| "placeholders DeleteNote = 1"

text \<open>
  What the handlers cannot see of the database driver and of the template engine, for
  one request:
  \<^item> \<open>text_as_id\<close>: the integer the storage reads a bound text as when it compares the
    text with the integer key (\<open>None\<close>: the text equals no key);
  \<^item> \<open>null_for_missing\<close>: whether a placeholder without an argument is bound to NULL
    (otherwise the statement is refused);
  \<^item> \<open>query_err\<close>: the error with which \<^verbatim>\<open>Query\<close>, \<^verbatim>\<open>QueryRow\<close> or \<^verbatim>\<open>Exec\<close> fails
    before the statement runs;
  \<^item> \<open>scan_err\<close>, \<open>rows_err\<close>: the errors of \<^verbatim>\<open>Scan\<close> and of the row iteration;
  \<^item> \<open>last_insert_id_err\<close>, \<open>rows_affected_err\<close>: the errors of the two methods of
    \<^verbatim>\<open>sql.Result\<close>;
  \<^item> \<open>template_err\<close>: the error of \<^verbatim>\<open>Execute\<close>.
\<close>

record env =
  text_as_id :: "string \<Rightarrow> int option"
  null_for_missing :: bool
  query_err :: "string option"
  scan_err :: "string option"
  rows_err :: "string option"
  last_insert_id_err :: "string option"
  rows_affected_err :: "string option"
  template_err :: "string option"

text \<open>An environment without failures that reads decimal text as the storage does.\<close>

definition no_faults :: env where
  "no_faults = \<lparr>text_as_id = Atoi, null_for_missing = False, query_err = None,
     scan_err = None, rows_err = None, last_insert_id_err = None,
     rows_affected_err = None, template_err = None\<rparr>"

definition bind_args :: "env \<Rightarrow> stmt \<Rightarrow> sql_value list \<Rightarrow> error + sql_value list" where
  "bind_args e s args =
     (if length args = placeholders s then Inr args
      else if length args < placeholders s \<and> null_for_missing e
      then Inr (args @ replicate (placeholders s - length args) SqlNull)
      else Inl ErrArgs)"

text \<open>\<^verbatim>\<open>WHERE id = ?\<close>: NULL equals nothing.\<close>

fun id_matches :: "env \<Rightarrow> sql_value \<Rightarrow> int \<Rightarrow> bool" where
  "id_matches e SqlNull i = False"
| "id_matches e (SqlInt n) i = (n = i)"
| "id_matches e (SqlText s) i = (text_as_id e s = Some i)"

text \<open>The value a TEXT NOT NULL column stores; \<open>None\<close> is the violated constraint.\<close>

fun as_text :: "sql_value \<Rightarrow> string option" where
  "as_text SqlNull = None"
| "as_text (SqlInt n) = Some (show_int n)"
| "as_text (SqlText s) = Some s"

text \<open>\<^verbatim>\<open>LIMIT lim OFFSET off\<close>: a negative limit is no limit, a negative offset is none.\<close>

definition limit_offset :: "int \<Rightarrow> int \<Rightarrow> 'a list \<Rightarrow> 'a list" where
  "limit_offset lim off xs =
     (let ys = drop (nat off) xs in if lim < 0 then ys else take (nat lim) ys)"

text \<open>AUTOINCREMENT: one more than the largest row id the table has ever held.\<close>

definition next_rowid :: "db \<Rightarrow> int" where
  "next_rowid d = 1 + fold max (map Id_note (notes_tbl d)) (seq d)"

text \<open>\<^verbatim>\<open>a.DB.Query\<close>: the rows of a SELECT statement, before any of them is scanned.\<close>

definition db_query :: "env \<Rightarrow> stmt \<Rightarrow> sql_value list \<Rightarrow> db \<Rightarrow> error + Note list" where
  "db_query e s args d =
     (case query_err e of
        Some m \<Rightarrow> Inl (ErrOther m)
      | None \<Rightarrow>
          (case bind_args e s args of
             Inl err \<Rightarrow> Inl err
           | Inr vs \<Rightarrow>
               (case (s, vs) of
                  (SelectPage, [SqlInt lim, SqlInt off]) \<Rightarrow> Inr (limit_offset lim off (notes_tbl d))
                | (SelectById, [v]) \<Rightarrow>
                    Inr (filter (\<lambda>n. id_matches e v (Id_note n)) (notes_tbl d))
                | _ \<Rightarrow> Inl (ErrOther ''datatype mismatch''))))"

text \<open>
  \<^verbatim>\<open>sql.Result\<close>. A method that returns an error returns the zero count with it, so
  \<^verbatim>\<open>n, _ := res.RowsAffected()\<close> reads 0 then.
\<close>

record result =
  inserted_id :: int
  affected :: int

definition LastInsertId :: "env \<Rightarrow> result \<Rightarrow> int \<times> error option" where
  "LastInsertId e res =
     (case last_insert_id_err e of
        Some m \<Rightarrow> (0, Some (ErrOther m))
      | None \<Rightarrow> (inserted_id res, None))"

definition RowsAffected :: "env \<Rightarrow> result \<Rightarrow> int \<times> error option" where
  "RowsAffected e res =
     (case rows_affected_err e of
        Some m \<Rightarrow> (0, Some (ErrOther m))
      | None \<Rightarrow> (affected res, None))"

text \<open>
  \<^verbatim>\<open>a.DB.Exec\<close>: a statement that fails leaves the table as it was. The row id of a
  result is read after an INSERT only.
\<close>

definition db_exec :: "env \<Rightarrow> stmt \<Rightarrow> sql_value list \<Rightarrow> db \<Rightarrow> (error + result) \<times> db" where
  "db_exec e s args d =
     (case query_err e of
        Some m \<Rightarrow> (Inl (ErrOther m), d)
      | None \<Rightarrow>
          (case bind_args e s args of
             Inl err \<Rightarrow> (Inl err, d)
           | Inr vs \<Rightarrow>
               (case (s, vs) of
                  (InsertNote, [t, c]) \<Rightarrow>
                    (case (as_text t, as_text c) of
                       (Some t', Some c') \<Rightarrow>
                         (let i = next_rowid d
                          in if MaxInt64 < i then (Inl ErrFull, d)
                             else (Inr \<lparr>inserted_id = i, affected = 1\<rparr>,
                                   d\<lparr>notes_tbl := notes_tbl d @ [\<lparr>Id_note = i, Title = t', Content = c'\<rparr>],
                                     seq := i\<rparr>))
                     | _ \<Rightarrow> (Inl ErrConstraint, d))
                | (UpdateNote, [t, c, i]) \<Rightarrow>
                    (let hit = filter (\<lambda>n. id_matches e i (Id_note n)) (notes_tbl d)
                     in if hit = [] then (Inr \<lparr>inserted_id = 0, affected = 0\<rparr>, d)
                        else (case (as_text t, as_text c) of
                                (Some t', Some c') \<Rightarrow>
                                  (Inr \<lparr>inserted_id = 0, affected = int (length hit)\<rparr>,
                                   d\<lparr>notes_tbl := map (\<lambda>n. if id_matches e i (Id_note n)
                                                        then n\<lparr>Title := t', Content := c'\<rparr> else n)
                                                  (notes_tbl d)\<rparr>)
                              | _ \<Rightarrow> (Inl ErrConstraint, d)))
                | (DeleteNote, [i]) \<Rightarrow>
                    (Inr \<lparr>inserted_id = 0,
                          affected = int (length (filter (\<lambda>n. id_matches e i (Id_note n)) (notes_tbl d)))\<rparr>,
                     d\<lparr>notes_tbl := filter (\<lambda>n. \<not> id_matches e i (Id_note n)) (notes_tbl d)\<rparr>)
                | _ \<Rightarrow> (Inl (ErrOther ''not a statement to execute''), d))))"

text \<open>
  \<^verbatim>\<open>a.DB.QueryRow(...).Scan(...)\<close>: the first row of the query; \<^verbatim>\<open>sql.ErrNoRows\<close> when
  the iteration ends without an error before a first row.
\<close>

definition query_row_scan :: "env \<Rightarrow> stmt \<Rightarrow> sql_value list \<Rightarrow> db \<Rightarrow> error + Note" where
  "query_row_scan e s args d =
     (case db_query e s args d of
        Inl err \<Rightarrow> Inl err
      | Inr rows \<Rightarrow>
          (case rows_err e of
             Some m \<Rightarrow> Inl (ErrOther m)
           | None \<Rightarrow>
               (case rows of
                  [] \<Rightarrow> Inl ErrNoRows
                | n # _ \<Rightarrow> (case scan_err e of Some m \<Rightarrow> Inl (ErrOther m) | None \<Rightarrow> Inr n))))"

text \<open>\<^verbatim>\<open>for rows.Next() { ... rows.Scan(...) ...; notes = append(notes, n) }\<close>\<close>

fun scan_rows :: "env \<Rightarrow> Note list \<Rightarrow> Note list \<Rightarrow> error + Note list" where
  "scan_rows e [] acc = Inr acc"
| "scan_rows e (n # rows) acc =
     (case scan_err e of
        Some m \<Rightarrow> Inl (ErrOther m)
      | None \<Rightarrow> scan_rows e rows (acc @ [n]))"

text \<open>\<^verbatim>\<open>a.Templates[name].Execute(w, data)\<close>, and \<^verbatim>\<open>http.Error\<close> with status 500 when it fails.\<close>

definition execute :: "env \<Rightarrow> string \<Rightarrow> string option \<Rightarrow> page \<Rightarrow> response" where
  "execute e name ctype data =
     (case template_err e of
        Some m \<Rightarrow> HttpError StatusInternalServerError (ErrorText (ErrOther m))
      | None \<Rightarrow> Render name ctype data)"

section \<open>The handlers of the paginated variant\<close>

definition page_of :: "request \<Rightarrow> int" where
  "page_of r =
     (case Atoi (Get (URLQuery r) ''page'') of
        None \<Rightarrow> 1
      | Some p \<Rightarrow> if p < 1 then 1 else p)"

definition html :: "string option" where
  "html = Some ''text/html; charset=utf-8''"

definition mainPage :: "env \<Rightarrow> request \<Rightarrow> db \<Rightarrow> response \<times> db" where
  "mainPage e r d =
     (let page = page_of r;
          limit = 1;
          offset = wrap64 ((page - 1) * limit)
      in case db_query e SelectPage [SqlInt (limit + 1), SqlInt offset] d of
           Inl err \<Rightarrow> (HttpError StatusInternalServerError (ErrorText err), d)
         | Inr rows \<Rightarrow>
             (case scan_rows e rows [] of
                Inl err \<Rightarrow> (HttpError StatusInternalServerError (ErrorText err), d)
              | Inr ns \<Rightarrow>
                  (let hasNext = (int (length ns) > limit);
                       ns' = (if int (length ns) > limit then take (nat limit) ns else ns)
                   in case rows_err e of
                        Some m \<Rightarrow> (HttpError StatusInternalServerError (ErrorText (ErrOther m)), d)
                      | None \<Rightarrow>
                          (execute e ''index'' html
                             (IndexPage \<lparr>Notes = ns', Page = page, HasNext = hasNext,
                                HasPrev = (page > 1), NextPage = wrap64 (page + 1),
                                PrevPage = wrap64 (page - 1)\<rparr>), d))))"

definition detailPage :: "env \<Rightarrow> request \<Rightarrow> db \<Rightarrow> response \<times> db" where
  "detailPage e r d =
     (let id' = Get (URLQuery r) ''id''
      in if id' = [] then (HttpError StatusBadRequest (Text ''ID is required''), d)
         else (case query_row_scan e SelectById [SqlText id'] d of
                 Inl err \<Rightarrow>
                   (if err = ErrNoRows then (HttpError StatusNotFound (Text ''Note not found''), d)
                    else (HttpError StatusInternalServerError (ErrorText err), d))
               | Inr n \<Rightarrow> (execute e ''details'' html (NotePage n), d)))"

definition createNoteHandler :: "env \<Rightarrow> request \<Rightarrow> db \<Rightarrow> response \<times> db" where
  "createNoteHandler e r d =
     (if Method r \<noteq> ''POST''
      then (HttpError StatusMethodNotAllowed (Text ''Method not allowed''), d)
      else (let title = FormValue r ''title'';
                content = FormValue r ''content''
            in if title = [] \<or> content = []
               then (HttpError StatusBadRequest (Text ''Title and content are required''), d)
               else (case db_exec e InsertNote [SqlText title, SqlText content] d of
                       (Inl err, d') \<Rightarrow> (HttpError StatusInternalServerError (ErrorText err), d')
                     | (Inr res, d') \<Rightarrow>
                         (case LastInsertId e res of
                            (_, Some err) \<Rightarrow>
                              (HttpError StatusInternalServerError (ErrorText err), d')
                          | (id', None) \<Rightarrow>
                              (Redirect (''/note?id='' @ show_int id') StatusSeeOther, d')))))"

definition updateNoteHandler :: "env \<Rightarrow> request \<Rightarrow> db \<Rightarrow> response \<times> db" where
  "updateNoteHandler e r d =
     (let id' = Get (URLQuery r) ''id''
      in if id' = [] then (HttpError StatusBadRequest (Text ''ID is required''), d)
         else (case db_exec e UpdateNote [SqlText id'] d of
                 (Inl err, d') \<Rightarrow> (HttpError StatusInternalServerError (ErrorText err), d')
               | (Inr res, d') \<Rightarrow>
                   (let rowsAffected = fst (RowsAffected e res)
                    in if rowsAffected = 0
                       then (HttpError StatusNotFound (Text ''Note not found''), d')
                       else (Redirect ''/'' StatusSeeOther, d'))))"

definition removeNoteHandler :: "env \<Rightarrow> request \<Rightarrow> db \<Rightarrow> response \<times> db" where
  "removeNoteHandler e r d =
     (let id' = Get (URLQuery r) ''id''
      in if id' = [] then (HttpError StatusBadRequest (Text ''ID is required''), d)
         else (case db_exec e DeleteNote [SqlText id'] d of
                 (Inl err, d') \<Rightarrow> (HttpError StatusInternalServerError (ErrorText err), d')
               | (Inr res, d') \<Rightarrow>
                   (let rowsAffected = fst (RowsAffected e res)
                    in if rowsAffected = 0
                       then (HttpError StatusNotFound (Text ''Note not found''), d')
                       else (Redirect ''/'' StatusSeeOther, d'))))"

section \<open>The handlers of the simple variant\<close>

text \<open>Scanning a row into the simple variant's \<^verbatim>\<open>Note\<close> writes the key as decimal text.\<close>

definition scan_main :: "Note \<Rightarrow> Note_main" where
  "scan_main n = \<lparr>Id_main = show_int (Id_note n), Title_main = Title n, Content_main = Content n\<rparr>"

definition noteDetailPage :: "env \<Rightarrow> request \<Rightarrow> db \<Rightarrow> response \<times> db" where
  "noteDetailPage e r d =
     (let id' = Get (URLQuery r) ''id''
      in if id' = [] then (HttpError StatusBadRequest (Text ''ID is required''), d)
         else (case query_row_scan e SelectById [SqlText id'] d of
                 Inl err \<Rightarrow>
                   (if err = ErrNoRows then (HttpError StatusNotFound (Text ''Note not found''), d)
                    else (HttpError StatusInternalServerError (ErrorText err), d))
               | Inr n \<Rightarrow> (execute e ''details'' None (NoteMainPage (scan_main n)), d)))"

definition createNoteHandler_main :: "env \<Rightarrow> request \<Rightarrow> db \<Rightarrow> response \<times> db" where
  "createNoteHandler_main e r d =
     (let title = FormValue r ''title'';
          content = FormValue r ''content''
      in if title = [] \<or> content = []
         then (HttpError StatusBadRequest (Text ''Title and content are required''), d)
         else (case db_exec e InsertNote [SqlText title, SqlText content] d of
                 (Inl err, d') \<Rightarrow> (HttpError StatusInternalServerError (ErrorText err), d')
               | (Inr res, d') \<Rightarrow>
                   (case LastInsertId e res of
                      (_, Some err) \<Rightarrow> (HttpError StatusInternalServerError (ErrorText err), d')
                    | (id', None) \<Rightarrow>
                        (Redirect (''/note?id='' @ show_int id') StatusSeeOther, d'))))"

definition removeNoteHandler_main :: "env \<Rightarrow> request \<Rightarrow> db \<Rightarrow> response \<times> db" where
  "removeNoteHandler_main e r d =
     (let id' = Get (URLQuery r) ''id''
      in if id' = [] then (HttpError StatusBadRequest (Text ''ID is required''), d)
         else (case db_exec e DeleteNote [SqlText id'] d of
                 (Inl err, d') \<Rightarrow> (HttpError StatusInternalServerError (ErrorText err), d')
               | (Inr res, d') \<Rightarrow>
                   (let rowsAffected = fst (RowsAffected e res)
                    in if rowsAffected = 0
                       then (HttpError StatusNotFound (Text ''Note not found''), d')
                       else (Redirect ''/'' StatusSeeOther, d'))))"

section \<open>Sequences of requests\<close>

text \<open>
  The three routes that write to the table, as registered in \<^verbatim>\<open>main\<close>. The simple variant
  registers no \<^verbatim>\<open>/update\<close>: there the path falls to the listing handler, which writes
  nothing.
\<close>

datatype call = Create request | Update request | Remove request

fun step :: "env \<Rightarrow> call \<Rightarrow> db \<Rightarrow> db" where
  "step e (Create r) d = snd (createNoteHandler e r d)"
| "step e (Update r) d = snd (updateNoteHandler e r d)"
| "step e (Remove r) d = snd (removeNoteHandler e r d)"

fun step_main :: "env \<Rightarrow> call \<Rightarrow> db \<Rightarrow> db" where
  "step_main e (Create r) d = snd (createNoteHandler_main e r d)"
| "step_main e (Update r) d = d"
| "step_main e (Remove r) d = snd (removeNoteHandler_main e r d)"

fun run :: "(env \<times> call) list \<Rightarrow> db \<Rightarrow> db" where
  "run [] d = d"
| "run ((e, c) # cs) d = run cs (step e c d)"

fun run_main :: "(env \<times> call) list \<Rightarrow> db \<Rightarrow> db" where
  "run_main [] d = d"
| "run_main ((e, c) # cs) d = run_main cs (step_main e c d)"

text \<open>A note with a title and a content.\<close>

definition filled :: "Note \<Rightarrow> bool" where
  "filled n = (Title n \<noteq> [] \<and> Content n \<noteq> [])"

section \<open>Example data\<close>

text \<open>A GET request with the given query and a POST request with the given form.\<close>

definition get_request :: "(string \<times> string) list \<Rightarrow> request" where
  "get_request q = \<lparr>Method = ''GET'', URLQuery = q, PostForm = []\<rparr>"

definition post_request :: "(string \<times> string) list \<Rightarrow> request" where
  "post_request f = \<lparr>Method = ''POST'', URLQuery = [], PostForm = f\<rparr>"

text \<open>Three stored notes and their table.\<close>

definition note_a :: Note where
  "note_a = \<lparr>Id_note = 1, Title = ''a'', Content = ''x''\<rparr>"

definition note_b :: Note where
  "note_b = \<lparr>Id_note = 2, Title = ''b'', Content = ''y''\<rparr>"

definition note_c :: Note where
  "note_c = \<lparr>Id_note = 3, Title = ''c'', Content = ''z''\<rparr>"

definition three_notes :: db where
  "three_notes = \<lparr>notes_tbl = [note_a, note_b, note_c], seq = 3\<rparr>"

text \<open>A storage whose only failure is that of \<^verbatim>\<open>RowsAffected\<close>.\<close>

definition lost_count :: env where
  "lost_count = no_faults\<lparr>rows_affected_err := Some ''no RowsAffected available''\<rparr>"

text \<open>
  Four requests in a row: a valid create, a create with an empty title, an update on a
  storage that binds NULL to missing arguments, and a remove of a key that is not stored.
\<close>

definition example_calls :: "(env \<times> call) list" where
  "example_calls =
     [(no_faults, Create (post_request [(''title'', ''t''), (''content'', ''c'')])),
      (no_faults, Create (post_request [(''title'', []), (''content'', ''c'')])),
      (no_faults\<lparr>null_for_missing := True\<rparr>, Update (get_request [(''id'', ''1'')])),
      (no_faults, Remove (get_request [(''id'', ''7'')]))]"

section \<open>Auxiliary facts\<close>

subsection \<open>Constants and example data\<close>

lemmas status_defs =
  StatusSeeOther_def StatusBadRequest_def StatusNotFound_def
  StatusMethodNotAllowed_def StatusInternalServerError_def

lemma get_request_simps:
  "Method (get_request q) = ''GET''" "URLQuery (get_request q) = q" "PostForm (get_request q) = []"
  by (simp_all add: get_request_def)

lemma post_request_simps:
  "Method (post_request f) = ''POST''" "URLQuery (post_request f) = []"
  "PostForm (post_request f) = f"
  by (simp_all add: post_request_def)

lemma no_faults_simps:
  "text_as_id no_faults = Atoi" "null_for_missing no_faults = False"
  "query_err no_faults = None" "scan_err no_faults = None" "rows_err no_faults = None"
  "last_insert_id_err no_faults = None" "rows_affected_err no_faults = None"
  "template_err no_faults = None"
  by (simp_all add: no_faults_def)

lemma three_notes_simps:
  "notes_tbl three_notes = [note_a, note_b, note_c]" "seq three_notes = 3"
  by (simp_all add: three_notes_def)

lemma note_ids: "Id_note note_a = 1" "Id_note note_b = 2" "Id_note note_c = 3"
  by (simp_all add: note_a_def note_b_def note_c_def)

lemma three_notes_inserted:
  "three_notes\<lparr>notes_tbl := notes_tbl three_notes @ [x], seq := s\<rparr> =
     \<lparr>notes_tbl = [note_a, note_b, note_c, x], seq = s\<rparr>"
  by (simp add: three_notes_def)

subsection \<open>Decimal text\<close>

declare digits.simps [simp del]

lemma digit_val_digit_char: "d < 10 \<Longrightarrow> digit_val (digit_char d) = Some d"
  by (simp add: digit_val_def digit_char_def Let_def)

lemma digit_val_sign: "digit_val CHR ''-'' = None" "digit_val CHR ''+'' = None"
  by (simp_all add: digit_val_def)

lemma parse_digits_append:
  "parse_digits (xs @ ys) acc =
     (case parse_digits xs acc of None \<Rightarrow> None | Some a \<Rightarrow> parse_digits ys a)"
  by (induction xs arbitrary: acc) (auto split: option.splits)

lemma parse_digits_digits: "parse_digits (digits n) 0 = Some n"
proof (induction n rule: digits.induct)
  case (1 n)
  show ?case
  proof (cases "n < 10")
    case True
    then show ?thesis by (subst digits.simps) (simp add: digit_val_digit_char)
  next
    case False
    then have "parse_digits (digits (n div 10)) 0 = Some (n div 10)"
      using "1.IH" by simp
    with False show ?thesis
      by (subst digits.simps) (simp add: parse_digits_append digit_val_digit_char)
  qed
qed

lemma digits_not_Nil: "digits n \<noteq> []"
  by (subst digits.simps) simp

lemma digits_hd_no_sign:
  assumes "digits n = c # cs"
  shows "c \<noteq> CHR ''-'' \<and> c \<noteq> CHR ''+''"
proof -
  have "parse_digits (c # cs) 0 = Some n"
    using parse_digits_digits [of n] assms by simp
  then have "digit_val c \<noteq> None"
    by (auto split: option.splits)
  then show ?thesis
    using digit_val_sign by auto
qed

lemma parse_int_show_int: "parse_int (show_int i) = Some i"
proof (cases "i < 0")
  case True
  then show ?thesis
    by (simp add: parse_int_def show_int_def digits_not_Nil parse_digits_digits)
next
  case False
  obtain c cs where cs: "digits (nat i) = c # cs"
    using digits_not_Nil [of "nat i"] by (cases "digits (nat i)") auto
  have "parse_digits (c # cs) 0 = Some (nat i)"
    using parse_digits_digits [of "nat i"] cs by simp
  with False cs digits_hd_no_sign [OF cs] show ?thesis
    by (simp add: parse_int_def show_int_def Let_def del: parse_digits.simps)
qed

lemma show_int_inject:
  assumes "show_int i = show_int j"
  shows "i = j"
proof -
  have "Some i = parse_int (show_int i)"
    by (simp only: parse_int_show_int)
  also have "\<dots> = parse_int (show_int j)"
    by (simp only: assms)
  also have "\<dots> = Some j"
    by (simp only: parse_int_show_int)
  finally show ?thesis by simp
qed

lemma Atoi_show_int: "MinInt64 \<le> i \<Longrightarrow> i \<le> MaxInt64 \<Longrightarrow> Atoi (show_int i) = Some i"
  by (simp add: Atoi_def parse_int_show_int)

subsection \<open>Row ids\<close>

lemma fold_max_ge: "(acc::int) \<le> fold max xs acc"
  by (induction xs arbitrary: acc) (auto intro: order_trans [OF max.cobounded2])

lemma fold_max_mem: "(x::int) \<in> set xs \<Longrightarrow> x \<le> fold max xs acc"
proof (induction xs arbitrary: acc)
  case Nil
  then show ?case by simp
next
  case (Cons y ys)
  show ?case
  proof (cases "x = y")
    case True
    have "y \<le> max y acc" by simp
    also have "\<dots> \<le> fold max ys (max y acc)" by (rule fold_max_ge)
    finally show ?thesis using True by simp
  next
    case False
    with Cons show ?thesis by simp
  qed
qed

lemma next_rowid_fresh: "n \<in> set (notes_tbl d) \<Longrightarrow> Id_note n < next_rowid d"
  using fold_max_mem [of "Id_note n" "map Id_note (notes_tbl d)" "seq d"]
  by (simp add: next_rowid_def)

lemma next_rowid_seq: "seq d < next_rowid d"
  using fold_max_ge [of "seq d" "map Id_note (notes_tbl d)"]
  by (simp add: next_rowid_def)

subsection \<open>The listing query\<close>

lemma scan_rows_ok: "scan_err e = None \<Longrightarrow> scan_rows e rows acc = Inr (acc @ rows)"
  by (induction rows arbitrary: acc) auto

lemma scan_rows_fail: "scan_err e = Some m \<Longrightarrow> rows \<noteq> [] \<Longrightarrow> scan_rows e rows acc = Inl (ErrOther m)"
  by (cases rows) auto

lemma Atoi_range: "Atoi s = Some v \<Longrightarrow> MinInt64 \<le> v \<and> v \<le> MaxInt64"
  by (auto simp: Atoi_def split: option.splits if_splits)

lemma wrap64_id: "MinInt64 \<le> x \<Longrightarrow> x \<le> MaxInt64 \<Longrightarrow> wrap64 x = x"
  by (simp add: wrap64_def MinInt64_def MaxInt64_def)

lemma page_of_bounds: "1 \<le> page_of r \<and> page_of r \<le> MaxInt64"
proof (cases "Atoi (Get (URLQuery r) ''page'')")
  case None
  then show ?thesis by (simp add: page_of_def MaxInt64_def)
next
  case (Some p)
  with Atoi_range [OF Some] show ?thesis
    by (simp add: page_of_def MaxInt64_def)
qed

lemma Atoi_Nil: "Atoi [] = None"
  by (simp add: Atoi_def parse_int_def)

lemma Get_absent: "map_of vs key = None \<Longrightarrow> Get vs key = []"
  by (simp add: Get_def)

lemma db_query_page:
  "query_err e = None \<Longrightarrow>
   db_query e SelectPage [SqlInt lim, SqlInt off] d = Inr (limit_offset lim off (notes_tbl d))"
  by (simp add: db_query_def bind_args_def)

lemma mainPage_ok:
  assumes "query_err e = None" "scan_err e = None" "rows_err e = None" "template_err e = None"
  shows "mainPage e r d =
    (Render ''index'' html
       (IndexPage \<lparr>Notes = take 1 (take 2 (drop (nat (page_of r - 1)) (notes_tbl d))),
          Page = page_of r,
          HasNext = (1 < length (take 2 (drop (nat (page_of r - 1)) (notes_tbl d)))),
          HasPrev = (1 < page_of r),
          NextPage = wrap64 (page_of r + 1),
          PrevPage = page_of r - 1\<rparr>), d)"
proof -
  have b: "1 \<le> page_of r" "page_of r \<le> MaxInt64"
    using page_of_bounds [of r] by simp_all
  then have w: "wrap64 (page_of r - 1) = page_of r - 1"
    by (intro wrap64_id) (simp_all add: MinInt64_def)
  have q: "db_query e SelectPage [SqlInt 2, SqlInt (page_of r - 1)] d =
      Inr (take 2 (drop (nat (page_of r - 1)) (notes_tbl d)))"
    using assms(1) by (simp add: db_query_page limit_offset_def)
  show ?thesis
    using assms by (simp add: mainPage_def Let_def w q scan_rows_ok execute_def)
qed

lemma page_of_literals:
  "Get (URLQuery r) ''page'' = ''1'' \<Longrightarrow> page_of r = 1"
  "Get (URLQuery r) ''page'' = ''2'' \<Longrightarrow> page_of r = 2"
  "Get (URLQuery r) ''page'' = ''3'' \<Longrightarrow> page_of r = 3"
  by (simp_all add: page_of_def Atoi_def parse_int_def digit_val_def MinInt64_def MaxInt64_def)

subsection \<open>The statements\<close>

lemma db_exec_query_err: "query_err e = Some m \<Longrightarrow> db_exec e s args d = (Inl (ErrOther m), d)"
  by (simp add: db_exec_def)

lemma db_query_err: "query_err e = Some m \<Longrightarrow> db_query e s args d = Inl (ErrOther m)"
  by (simp add: db_query_def)

lemma db_exec_insert:
  "query_err e = None \<Longrightarrow>
   db_exec e InsertNote [SqlText t, SqlText c] d =
     (if MaxInt64 < next_rowid d then (Inl ErrFull, d)
      else (Inr \<lparr>inserted_id = next_rowid d, affected = 1\<rparr>,
            d\<lparr>notes_tbl := notes_tbl d @ [\<lparr>Id_note = next_rowid d, Title = t, Content = c\<rparr>],
              seq := next_rowid d\<rparr>))"
  by (simp add: db_exec_def bind_args_def Let_def)

lemma db_exec_delete:
  "query_err e = None \<Longrightarrow>
   db_exec e DeleteNote [SqlText i] d =
     (Inr \<lparr>inserted_id = 0,
           affected = int (length (filter (\<lambda>n. text_as_id e i = Some (Id_note n)) (notes_tbl d)))\<rparr>,
      d\<lparr>notes_tbl := filter (\<lambda>n. text_as_id e i \<noteq> Some (Id_note n)) (notes_tbl d)\<rparr>)"
  by (simp add: db_exec_def bind_args_def)

lemma bind_args_update:
  "bind_args e UpdateNote [SqlText i] =
     (if null_for_missing e then Inr [SqlText i, SqlNull, SqlNull] else Inl ErrArgs)"
  by (simp add: bind_args_def eval_nat_numeral)

lemma db_exec_update:
  "query_err e = None \<Longrightarrow>
   db_exec e UpdateNote [SqlText i] d =
     (if null_for_missing e then (Inr \<lparr>inserted_id = 0, affected = 0\<rparr>, d) else (Inl ErrArgs, d))"
  by (simp add: db_exec_def bind_args_update)

lemma db_query_by_id:
  "query_err e = None \<Longrightarrow>
   db_query e SelectById [SqlText i] d =
     Inr (filter (\<lambda>n. text_as_id e i = Some (Id_note n)) (notes_tbl d))"
  by (simp add: db_query_def bind_args_def)

lemma next_rowid_not_stored: "next_rowid d \<notin> Id_note ` set (notes_tbl d)"
  using next_rowid_fresh [of _ d] by fastforce

lemma next_rowid_three_notes: "next_rowid three_notes = 4"
  by (simp add: next_rowid_def three_notes_def note_a_def note_b_def note_c_def)

lemma show_int_literals: "show_int 1 = ''1''" "show_int 4 = ''4''"
  by code_simp+

subsection \<open>Looking a row up by its key\<close>

lemma filter_same_key:
  "distinct (map f xs) \<Longrightarrow> x \<in> set xs \<Longrightarrow> filter (\<lambda>y. f x = f y) xs = [x]"
  by (induction xs) (auto simp: filter_empty_conv image_iff)

lemma filter_other_key:
  "distinct (map f xs) \<Longrightarrow> x \<in> set xs \<Longrightarrow>
   filter (\<lambda>y. f x \<noteq> f y) xs = filter (\<lambda>y. y \<noteq> x) xs"
  by (rule filter_cong) (auto simp: distinct_map inj_on_def)

lemma length_filter_other:
  "distinct xs \<Longrightarrow> x \<in> set xs \<Longrightarrow> length (filter (\<lambda>y. y \<noteq> x) xs) + 1 = length xs"
proof (induction xs)
  case Nil
  then show ?case by simp
next
  case (Cons y ys)
  show ?case
  proof (cases "y = x")
    case True
    with Cons.prems have "filter (\<lambda>z. z \<noteq> x) ys = ys"
      by (auto simp: filter_id_conv)
    with True show ?thesis by simp
  next
    case False
    with Cons show ?thesis by simp
  qed
qed

lemma query_row_scan_by_id:
  assumes "query_err e = None" and "rows_err e = None"
  shows "query_row_scan e SelectById [SqlText i] d =
     (case filter (\<lambda>n. text_as_id e i = Some (Id_note n)) (notes_tbl d) of
        [] \<Rightarrow> Inl ErrNoRows
      | n # _ \<Rightarrow> (case scan_err e of Some m \<Rightarrow> Inl (ErrOther m) | None \<Rightarrow> Inr n))"
  using assms by (simp add: query_row_scan_def db_query_by_id)

lemma query_row_scan_query_err:
  "query_err e = Some m \<Longrightarrow> query_row_scan e s args d = Inl (ErrOther m)"
  by (simp add: query_row_scan_def db_query_err)

lemma query_row_scan_rows_err:
  "query_err e = None \<Longrightarrow> rows_err e = Some m \<Longrightarrow>
   query_row_scan e SelectById [SqlText i] d = Inl (ErrOther m)"
  by (simp add: query_row_scan_def db_query_by_id)

lemma query_row_scan_none:
  assumes "query_err e = None" and "rows_err e = None"
    and "\<forall>n\<in>set (notes_tbl d). text_as_id e i \<noteq> Some (Id_note n)"
  shows "query_row_scan e SelectById [SqlText i] d = Inl ErrNoRows"
proof -
  have "filter (\<lambda>n. text_as_id e i = Some (Id_note n)) (notes_tbl d) = []"
    using assms(3) by (simp add: filter_empty_conv)
  then show ?thesis
    using assms(1,2) by (simp add: query_row_scan_by_id)
qed

lemma query_row_scan_found:
  assumes "query_err e = None" and "rows_err e = None"
    and "distinct (map Id_note (notes_tbl d))" and "n \<in> set (notes_tbl d)"
    and "text_as_id e i = Some (Id_note n)"
  shows "query_row_scan e SelectById [SqlText i] d =
     (case scan_err e of Some m \<Rightarrow> Inl (ErrOther m) | None \<Rightarrow> Inr n)"
proof -
  have "filter (\<lambda>k. text_as_id e i = Some (Id_note k)) (notes_tbl d) =
      filter (\<lambda>k. Id_note n = Id_note k) (notes_tbl d)"
    using assms(5) by simp
  also have "\<dots> = [n]"
    using assms(3,4) by (rule filter_same_key)
  finally show ?thesis
    using assms(1,2) by (simp add: query_row_scan_by_id)
qed

lemma Atoi_literals:
  "Atoi ''1'' = Some 1" "Atoi ''2'' = Some 2" "Atoi ''7'' = Some 7"
  "Atoi ''0'' = Some 0" "Atoi ''-1'' = Some (- 1)"
  by (simp_all add: Atoi_def parse_int_def digit_val_def MinInt64_def MaxInt64_def)

lemma show_int_2: "show_int 2 = ''2''"
  by code_simp

subsection \<open>What the handlers leave in the table\<close>

lemma removeNoteHandler_main_eq: "removeNoteHandler_main = removeNoteHandler"
  by (intro ext) (simp add: removeNoteHandler_main_def removeNoteHandler_def)

lemma updateNoteHandler_result:
  "updateNoteHandler e r d =
     (if Get (URLQuery r) ''id'' = [] then HttpError StatusBadRequest (Text ''ID is required'')
      else (case query_err e of
              Some m \<Rightarrow> HttpError StatusInternalServerError (ErrorText (ErrOther m))
            | None \<Rightarrow>
                if null_for_missing e then HttpError StatusNotFound (Text ''Note not found'')
                else HttpError StatusInternalServerError (ErrorText ErrArgs)), d)"
  by (cases "query_err e")
    (simp_all add: updateNoteHandler_def db_exec_update db_exec_query_err RowsAffected_def
      split: option.splits)

lemma createNoteHandler_ok:
  assumes "Method r = ''POST''"
    and "FormValue r ''title'' \<noteq> []" and "FormValue r ''content'' \<noteq> []"
    and "query_err e = None" and "next_rowid d \<le> MaxInt64" and "last_insert_id_err e = None"
  shows "createNoteHandler e r d =
      (Redirect (''/note?id='' @ show_int (next_rowid d)) StatusSeeOther,
       d\<lparr>notes_tbl := notes_tbl d @
            [\<lparr>Id_note = next_rowid d, Title = FormValue r ''title'',
              Content = FormValue r ''content''\<rparr>],
         seq := next_rowid d\<rparr>)"
  using assms by (simp add: createNoteHandler_def Let_def db_exec_insert LastInsertId_def)

lemma createNoteHandler_main_ok:
  assumes "FormValue r ''title'' \<noteq> []" and "FormValue r ''content'' \<noteq> []"
    and "query_err e = None" and "next_rowid d \<le> MaxInt64" and "last_insert_id_err e = None"
  shows "createNoteHandler_main e r d =
      (Redirect (''/note?id='' @ show_int (next_rowid d)) StatusSeeOther,
       d\<lparr>notes_tbl := notes_tbl d @
            [\<lparr>Id_note = next_rowid d, Title = FormValue r ''title'',
              Content = FormValue r ''content''\<rparr>],
         seq := next_rowid d\<rparr>)"
  using assms by (simp add: createNoteHandler_main_def Let_def db_exec_insert LastInsertId_def)

lemma createNoteHandler_db:
  "snd (createNoteHandler e r d) = d \<or>
   FormValue r ''title'' \<noteq> [] \<and> FormValue r ''content'' \<noteq> [] \<and>
   snd (createNoteHandler e r d) =
     d\<lparr>notes_tbl := notes_tbl d @
          [\<lparr>Id_note = next_rowid d, Title = FormValue r ''title'',
            Content = FormValue r ''content''\<rparr>],
       seq := next_rowid d\<rparr>"
proof (cases "query_err e")
  case None
  then show ?thesis
    by (simp add: createNoteHandler_def Let_def db_exec_insert LastInsertId_def
        split: option.splits)
next
  case (Some m)
  then show ?thesis
    by (simp add: createNoteHandler_def Let_def db_exec_query_err)
qed

lemma createNoteHandler_main_db:
  "snd (createNoteHandler_main e r d) = d \<or>
   FormValue r ''title'' \<noteq> [] \<and> FormValue r ''content'' \<noteq> [] \<and>
   snd (createNoteHandler_main e r d) =
     d\<lparr>notes_tbl := notes_tbl d @
          [\<lparr>Id_note = next_rowid d, Title = FormValue r ''title'',
            Content = FormValue r ''content''\<rparr>],
       seq := next_rowid d\<rparr>"
proof (cases "query_err e")
  case None
  then show ?thesis
    by (simp add: createNoteHandler_main_def Let_def db_exec_insert LastInsertId_def
        split: option.splits)
next
  case (Some m)
  then show ?thesis
    by (simp add: createNoteHandler_main_def Let_def db_exec_query_err)
qed

lemma removeNoteHandler_db:
  "\<exists>P. snd (removeNoteHandler e r d) = d\<lparr>notes_tbl := filter P (notes_tbl d)\<rparr>"
proof (cases "query_err e = None \<and> Get (URLQuery r) ''id'' \<noteq> []")
  case True
  then show ?thesis
    by (auto simp add: removeNoteHandler_def Let_def db_exec_delete)
next
  case False
  then have "snd (removeNoteHandler e r d) = d"
    by (auto simp add: removeNoteHandler_def Let_def db_exec_query_err)
  then have "snd (removeNoteHandler e r d) = d\<lparr>notes_tbl := filter (\<lambda>_. True) (notes_tbl d)\<rparr>"
    by simp
  then show ?thesis
    by (rule exI [of _ "\<lambda>_. True"])
qed

lemma updateNoteHandler_db: "snd (updateNoteHandler e r d) = d"
  by (simp add: updateNoteHandler_result)

lemma step_filled:
  assumes "list_all filled (notes_tbl d)"
  shows "list_all filled (notes_tbl (step e c d))"
proof (cases c)
  case (Create r)
  with assms createNoteHandler_db [of e r d] show ?thesis
    by (auto simp: filled_def)
next
  case (Update r)
  with assms show ?thesis
    by (simp add: updateNoteHandler_db)
next
  case (Remove r)
  with assms removeNoteHandler_db [of e r d] show ?thesis
    by (auto simp: list_all_iff)
qed

lemma step_main_filled:
  assumes "list_all filled (notes_tbl d)"
  shows "list_all filled (notes_tbl (step_main e c d))"
proof (cases c)
  case (Create r)
  with assms createNoteHandler_main_db [of e r d] show ?thesis
    by (auto simp: filled_def)
next
  case (Update r)
  with assms show ?thesis
    by simp
next
  case (Remove r)
  with assms removeNoteHandler_db [of e r d] show ?thesis
    by (auto simp: list_all_iff removeNoteHandler_main_eq)
qed

lemma run_filled:
  "list_all filled (notes_tbl d) \<Longrightarrow> list_all filled (notes_tbl (run cs d))"
proof (induction cs arbitrary: d)
  case Nil
  then show ?case by simp
next
  case (Cons x cs)
  obtain e c where x: "x = (e, c)"
    by (cases x)
  from Cons.prems have "list_all filled (notes_tbl (step e c d))"
    by (rule step_filled)
  then show ?case
    unfolding x by (simp add: Cons.IH)
qed

lemma run_main_filled:
  "list_all filled (notes_tbl d) \<Longrightarrow> list_all filled (notes_tbl (run_main cs d))"
proof (induction cs arbitrary: d)
  case Nil
  then show ?case by simp
next
  case (Cons x cs)
  obtain e c where x: "x = (e, c)"
    by (cases x)
  from Cons.prems have "list_all filled (notes_tbl (step_main e c d))"
    by (rule step_main_filled)
  then show ?case
    unfolding x by (simp add: Cons.IH)
qed

lemma run_example_calls:
  "run example_calls empty_db =
     \<lparr>notes_tbl = [\<lparr>Id_note = 1, Title = ''t'', Content = ''c''\<rparr>], seq = 1\<rparr>"
  by (simp add: example_calls_def createNoteHandler_def updateNoteHandler_db
      removeNoteHandler_def post_request_simps get_request_simps FormValue_def Get_def Let_def
      db_exec_insert db_exec_delete no_faults_simps next_rowid_def empty_db_def MaxInt64_def
      LastInsertId_def RowsAffected_def Atoi_literals)

lemma run_main_example_calls:
  "run_main example_calls empty_db =
     \<lparr>notes_tbl = [\<lparr>Id_note = 1, Title = ''t'', Content = ''c''\<rparr>], seq = 1\<rparr>"
  by (simp add: example_calls_def createNoteHandler_main_def
      removeNoteHandler_main_def post_request_simps get_request_simps FormValue_def Get_def Let_def
      db_exec_insert db_exec_delete no_faults_simps next_rowid_def empty_db_def MaxInt64_def
      LastInsertId_def RowsAffected_def Atoi_literals)

lemma query_row_scan_inserted:
  assumes "query_err e = None" and "rows_err e = None" and "scan_err e = None"
    and "text_as_id e s = Some (next_rowid d)"
  shows "query_row_scan e SelectById [SqlText s]
      (d\<lparr>notes_tbl := notes_tbl d @ [\<lparr>Id_note = next_rowid d, Title = t, Content = c\<rparr>],
         seq := next_rowid d\<rparr>) =
    Inr \<lparr>Id_note = next_rowid d, Title = t, Content = c\<rparr>"
proof -
  have "filter (\<lambda>n. next_rowid d = Id_note n) (notes_tbl d) = []"
    using next_rowid_fresh [of _ d] by (fastforce simp: filter_empty_conv)
  with assms show ?thesis
    by (simp add: query_row_scan_by_id)
qed

lemma Atoi_4: "Atoi ''4'' = Some 4"
  by (simp add: Atoi_def parse_int_def digit_val_def MinInt64_def MaxInt64_def)

subsection \<open>Keys stay distinct\<close>

lemma filter_wf:
  assumes "wf_db d"
  shows "wf_db (d\<lparr>notes_tbl := filter P (notes_tbl d)\<rparr>)"
  using assms by (auto simp: wf_db_def distinct_map_filter list_all_iff)

lemma insert_wf:
  assumes "wf_db d" and "next_rowid d \<le> MaxInt64"
  shows "wf_db (d\<lparr>notes_tbl := notes_tbl d @ [\<lparr>Id_note = next_rowid d, Title = t, Content = c\<rparr>],
                  seq := next_rowid d\<rparr>)"
proof -
  have "next_rowid d \<notin> Id_note ` set (notes_tbl d)"
    by (rule next_rowid_not_stored)
  moreover have "0 < next_rowid d"
    using next_rowid_seq [of d] assms(1) by (simp add: wf_db_def)
  ultimately show ?thesis
    using assms by (simp add: wf_db_def)
qed

lemma createNoteHandler_wf: "wf_db d \<Longrightarrow> wf_db (snd (createNoteHandler e r d))"
proof (cases "query_err e")
  case None
  assume "wf_db d"
  with None show ?thesis
    by (simp add: createNoteHandler_def Let_def db_exec_insert LastInsertId_def insert_wf
        split: option.splits)
next
  case (Some m)
  assume "wf_db d"
  with Some show ?thesis
    by (simp add: createNoteHandler_def Let_def db_exec_query_err)
qed

lemma createNoteHandler_main_wf: "wf_db d \<Longrightarrow> wf_db (snd (createNoteHandler_main e r d))"
proof (cases "query_err e")
  case None
  assume "wf_db d"
  with None show ?thesis
    by (simp add: createNoteHandler_main_def Let_def db_exec_insert LastInsertId_def insert_wf
        split: option.splits)
next
  case (Some m)
  assume "wf_db d"
  with Some show ?thesis
    by (simp add: createNoteHandler_main_def Let_def db_exec_query_err)
qed

lemma step_wf: "wf_db d \<Longrightarrow> wf_db (step e c d)"
proof (cases c)
  case (Create r)
  assume "wf_db d"
  with Create show ?thesis by (simp add: createNoteHandler_wf)
next
  case (Update r)
  assume "wf_db d"
  with Update show ?thesis by (simp add: updateNoteHandler_db)
next
  case (Remove r)
  assume "wf_db d"
  with Remove removeNoteHandler_db [of e r d] show ?thesis
    by (auto simp: filter_wf)
qed

lemma step_main_wf: "wf_db d \<Longrightarrow> wf_db (step_main e c d)"
proof (cases c)
  case (Create r)
  assume "wf_db d"
  with Create show ?thesis by (simp add: createNoteHandler_main_wf)
next
  case (Update r)
  assume "wf_db d"
  with Update show ?thesis by simp
next
  case (Remove r)
  assume "wf_db d"
  with Remove removeNoteHandler_db [of e r d] show ?thesis
    by (auto simp: filter_wf removeNoteHandler_main_eq)
qed

lemma run_wf: "wf_db d \<Longrightarrow> wf_db (run cs d)"
  by (induction cs arbitrary: d) (auto simp: step_wf)

lemma run_main_wf: "wf_db d \<Longrightarrow> wf_db (run_main cs d)"
  by (induction cs arbitrary: d) (auto simp: step_main_wf)

lemma empty_db_wf: "wf_db empty_db"
  by (simp add: wf_db_def empty_db_def MaxInt64_def)

lemma reachable_keys_distinct:
  "distinct (map Id_note (notes_tbl (run cs empty_db)))"
  "distinct (map Id_note (notes_tbl (run_main cs empty_db)))"
  using run_wf [OF empty_db_wf, of cs] run_main_wf [OF empty_db_wf, of cs]
  by (simp_all add: wf_db_def)

section \<open>The listing handler\<close>

text \<open>
  C1. For every GET request to the listing handler of the paginated variant, when neither
  the storage nor the template fails: the page is at least 1, it is 1 when the \<open>page\<close>
  parameter is absent, does not parse or parses to a number below 1, and the parsed
  number when that is positive; the
  handler fetches \<open>limit + 1\<close> rows at offset \<open>(page - 1) * limit\<close> with \<open>limit = 1\<close>,
  shows the first \<open>limit\<close> of them, sets has-next exactly when more than \<open>limit\<close> rows
  came back and has-prev exactly when the page is above 1. With exactly three notes
  stored, page 1 shows the first note with has-next and without has-prev, page 2 the
  second with both, page 3 the third with has-prev and without has-next.
\<close>

theorem mainPage_pagination:
  assumes "query_err e = None" and "scan_err e = None" and "rows_err e = None"
    and "template_err e = None"
  shows "\<exists>data. mainPage e r d = (Render ''index'' html (IndexPage data), d) \<and>
      1 \<le> page_of r \<and>
      (map_of (URLQuery r) ''page'' = None \<longrightarrow> page_of r = 1) \<and>
      (Atoi (Get (URLQuery r) ''page'') = None \<longrightarrow> page_of r = 1) \<and>
      (\<forall>p. Atoi (Get (URLQuery r) ''page'') = Some p \<and> 1 \<le> p \<longrightarrow> page_of r = p) \<and>
      (\<forall>p. Atoi (Get (URLQuery r) ''page'') = Some p \<and> p < 1 \<longrightarrow> page_of r = 1) \<and>
      Page data = page_of r \<and>
      Notes data = take 1 (take (1 + 1) (drop (nat ((page_of r - 1) * 1)) (notes_tbl d))) \<and>
      HasNext data = (1 < length (take (1 + 1) (drop (nat ((page_of r - 1) * 1)) (notes_tbl d)))) \<and>
      HasPrev data = (1 < page_of r) \<and>
      (notes_tbl d = [a, b, c] \<and> Get (URLQuery r) ''page'' = ''1'' \<longrightarrow>
         Notes data = [a] \<and> HasNext data \<and> \<not> HasPrev data) \<and>
      (notes_tbl d = [a, b, c] \<and> Get (URLQuery r) ''page'' = ''2'' \<longrightarrow>
         Notes data = [b] \<and> HasNext data \<and> HasPrev data) \<and>
      (notes_tbl d = [a, b, c] \<and> Get (URLQuery r) ''page'' = ''3'' \<longrightarrow>
         Notes data = [c] \<and> \<not> HasNext data \<and> HasPrev data)"
proof -
  let ?fetched = "take 2 (drop (nat (page_of r - 1)) (notes_tbl d))"
  let ?data = "\<lparr>Notes = take 1 ?fetched, Page = page_of r,
      HasNext = (1 < length ?fetched), HasPrev = (1 < page_of r),
      NextPage = wrap64 (page_of r + 1), PrevPage = page_of r - 1\<rparr>"
  have run: "mainPage e r d = (Render ''index'' html (IndexPage ?data), d)"
    using assms by (rule mainPage_ok)
  have lower: "1 \<le> page_of r"
    using page_of_bounds [of r] by simp
  have absent: "map_of (URLQuery r) ''page'' = None \<longrightarrow> page_of r = 1"
    by (simp add: page_of_def Get_absent Atoi_Nil)
  have failure: "Atoi (Get (URLQuery r) ''page'') = None \<longrightarrow> page_of r = 1"
    by (simp add: page_of_def)
  have parsed: "\<forall>p. Atoi (Get (URLQuery r) ''page'') = Some p \<and> 1 \<le> p \<longrightarrow> page_of r = p"
    by (simp add: page_of_def)
  have below: "\<forall>p. Atoi (Get (URLQuery r) ''page'') = Some p \<and> p < 1 \<longrightarrow> page_of r = 1"
    by (simp add: page_of_def)
  have p1: "notes_tbl d = [a, b, c] \<and> Get (URLQuery r) ''page'' = ''1'' \<longrightarrow>
      Notes ?data = [a] \<and> HasNext ?data \<and> \<not> HasPrev ?data"
    by (simp add: page_of_literals)
  have p2: "notes_tbl d = [a, b, c] \<and> Get (URLQuery r) ''page'' = ''2'' \<longrightarrow>
      Notes ?data = [b] \<and> HasNext ?data \<and> HasPrev ?data"
    by (simp add: page_of_literals)
  have p3: "notes_tbl d = [a, b, c] \<and> Get (URLQuery r) ''page'' = ''3'' \<longrightarrow>
      Notes ?data = [c] \<and> \<not> HasNext ?data \<and> HasPrev ?data"
    by (simp add: page_of_literals)
  show ?thesis
  proof (intro exI [of _ ?data] conjI)
    show "mainPage e r d = (Render ''index'' html (IndexPage ?data), d)" by (rule run)
    show "1 \<le> page_of r" by (rule lower)
    show "map_of (URLQuery r) ''page'' = None \<longrightarrow> page_of r = 1" by (rule absent)
    show "Atoi (Get (URLQuery r) ''page'') = None \<longrightarrow> page_of r = 1" by (rule failure)
    show "\<forall>p. Atoi (Get (URLQuery r) ''page'') = Some p \<and> 1 \<le> p \<longrightarrow> page_of r = p"
      by (rule parsed)
    show "\<forall>p. Atoi (Get (URLQuery r) ''page'') = Some p \<and> p < 1 \<longrightarrow> page_of r = 1"
      by (rule below)
    show "Page ?data = page_of r" by simp
    show "Notes ?data = take 1 (take (1 + 1) (drop (nat ((page_of r - 1) * 1)) (notes_tbl d)))"
      by simp
    show "HasNext ?data =
        (1 < length (take (1 + 1) (drop (nat ((page_of r - 1) * 1)) (notes_tbl d))))"
      by simp
    show "HasPrev ?data = (1 < page_of r)" by simp
    show "notes_tbl d = [a, b, c] \<and> Get (URLQuery r) ''page'' = ''1'' \<longrightarrow>
        Notes ?data = [a] \<and> HasNext ?data \<and> \<not> HasPrev ?data" by (rule p1)
    show "notes_tbl d = [a, b, c] \<and> Get (URLQuery r) ''page'' = ''2'' \<longrightarrow>
        Notes ?data = [b] \<and> HasNext ?data \<and> HasPrev ?data" by (rule p2)
    show "notes_tbl d = [a, b, c] \<and> Get (URLQuery r) ''page'' = ''3'' \<longrightarrow>
        Notes ?data = [c] \<and> \<not> HasNext ?data \<and> HasPrev ?data" by (rule p3)
  qed
qed

theorem mainPage_pagination_witness:
  "query_err no_faults = None \<and> scan_err no_faults = None \<and> rows_err no_faults = None \<and>
   template_err no_faults = None \<and>
   (\<exists>data. mainPage no_faults (get_request []) three_notes =
        (Render ''index'' html (IndexPage data), three_notes) \<and>
      Page data = 1 \<and> Notes data = [note_a] \<and> HasNext data \<and> \<not> HasPrev data) \<and>
   (\<exists>data. mainPage no_faults (get_request [(''page'', ''0'')]) three_notes =
        (Render ''index'' html (IndexPage data), three_notes) \<and>
      Page data = 1 \<and> Notes data = [note_a] \<and> HasNext data \<and> \<not> HasPrev data) \<and>
   (\<exists>data. mainPage no_faults (get_request [(''page'', ''-1'')]) three_notes =
        (Render ''index'' html (IndexPage data), three_notes) \<and>
      Page data = 1 \<and> Notes data = [note_a] \<and> HasNext data \<and> \<not> HasPrev data) \<and>
   (\<exists>data. mainPage no_faults (get_request [(''page'', ''1'')]) three_notes =
        (Render ''index'' html (IndexPage data), three_notes) \<and>
      Page data = 1 \<and> Notes data = [note_a] \<and> HasNext data \<and> \<not> HasPrev data) \<and>
   (\<exists>data. mainPage no_faults (get_request [(''page'', ''2'')]) three_notes =
        (Render ''index'' html (IndexPage data), three_notes) \<and>
      Page data = 2 \<and> Notes data = [note_b] \<and> HasNext data \<and> HasPrev data) \<and>
   (\<exists>data. mainPage no_faults (get_request [(''page'', ''3'')]) three_notes =
        (Render ''index'' html (IndexPage data), three_notes) \<and>
      Page data = 3 \<and> Notes data = [note_c] \<and> \<not> HasNext data \<and> HasPrev data)"
proof -
  have tbl: "notes_tbl three_notes = [note_a, note_b, note_c]"
    by (simp add: three_notes_def)
  have "\<exists>data. mainPage no_faults (get_request []) three_notes =
        (Render ''index'' html (IndexPage data), three_notes) \<and>
      Page data = 1 \<and> Notes data = [note_a] \<and> HasNext data \<and> \<not> HasPrev data"
    using mainPage_pagination [of no_faults "get_request []" three_notes note_a note_b note_c]
    by (auto simp add: no_faults_simps get_request_simps tbl)
  moreover have "\<exists>data. mainPage no_faults (get_request [(''page'', ''0'')]) three_notes =
        (Render ''index'' html (IndexPage data), three_notes) \<and>
      Page data = 1 \<and> Notes data = [note_a] \<and> HasNext data \<and> \<not> HasPrev data"
    using mainPage_pagination [of no_faults "get_request [(''page'', ''0'')]" three_notes
        note_a note_b note_c]
    by (auto simp add: no_faults_simps get_request_simps tbl Get_def Atoi_literals)
  moreover have "\<exists>data. mainPage no_faults (get_request [(''page'', ''-1'')]) three_notes =
        (Render ''index'' html (IndexPage data), three_notes) \<and>
      Page data = 1 \<and> Notes data = [note_a] \<and> HasNext data \<and> \<not> HasPrev data"
    using mainPage_pagination [of no_faults "get_request [(''page'', ''-1'')]" three_notes
        note_a note_b note_c]
    by (auto simp add: no_faults_simps get_request_simps tbl Get_def Atoi_literals)
  moreover have "\<exists>data. mainPage no_faults (get_request [(''page'', ''1'')]) three_notes =
        (Render ''index'' html (IndexPage data), three_notes) \<and>
      Page data = 1 \<and> Notes data = [note_a] \<and> HasNext data \<and> \<not> HasPrev data"
    using mainPage_pagination [of no_faults "get_request [(''page'', ''1'')]" three_notes
        note_a note_b note_c]
    by (auto simp add: no_faults_simps get_request_simps tbl Get_def page_of_literals)
  moreover have "\<exists>data. mainPage no_faults (get_request [(''page'', ''2'')]) three_notes =
        (Render ''index'' html (IndexPage data), three_notes) \<and>
      Page data = 2 \<and> Notes data = [note_b] \<and> HasNext data \<and> HasPrev data"
    using mainPage_pagination [of no_faults "get_request [(''page'', ''2'')]" three_notes
        note_a note_b note_c]
    by (auto simp add: no_faults_simps get_request_simps tbl Get_def page_of_literals)
  moreover have "\<exists>data. mainPage no_faults (get_request [(''page'', ''3'')]) three_notes =
        (Render ''index'' html (IndexPage data), three_notes) \<and>
      Page data = 3 \<and> Notes data = [note_c] \<and> \<not> HasNext data \<and> HasPrev data"
    using mainPage_pagination [of no_faults "get_request [(''page'', ''3'')]" three_notes
        note_a note_b note_c]
    by (auto simp add: no_faults_simps get_request_simps tbl Get_def page_of_literals)
  ultimately show ?thesis
    by (simp add: no_faults_simps)
qed

section \<open>The create handler\<close>

text \<open>
  C3. For every POST request to the create handler with a non-empty \<open>title\<close> and a
  non-empty \<open>content\<close>, in both variants: when the insert succeeds (the statement
  executes, the table is not full, and the generated id is retrieved), exactly one new
  row is stored, holding the submitted title and content under an id no stored row has,
  and the response is a see-other redirect to \<^verbatim>\<open>/note?id=N\<close>, \<open>N\<close> the id of the new row.
\<close>

theorem create_persists_and_redirects:
  assumes "Method r = ''POST''"
    and "FormValue r ''title'' \<noteq> []" and "FormValue r ''content'' \<noteq> []"
    and "query_err e = None" and "next_rowid d \<le> MaxInt64" and "last_insert_id_err e = None"
  shows "createNoteHandler e r d =
      (Redirect (''/note?id='' @ show_int (next_rowid d)) StatusSeeOther,
       d\<lparr>notes_tbl := notes_tbl d @
            [\<lparr>Id_note = next_rowid d, Title = FormValue r ''title'',
              Content = FormValue r ''content''\<rparr>],
         seq := next_rowid d\<rparr>) \<and>
    createNoteHandler_main e r d = createNoteHandler e r d \<and>
    next_rowid d \<notin> Id_note ` set (notes_tbl d) \<and>
    length (notes_tbl (snd (createNoteHandler e r d))) = length (notes_tbl d) + 1"
  using assms
  by (simp add: createNoteHandler_ok createNoteHandler_main_ok next_rowid_not_stored)

theorem create_persists_and_redirects_witness:
  "Method (post_request [(''title'', ''t''), (''content'', ''c'')]) = ''POST'' \<and>
   FormValue (post_request [(''title'', ''t''), (''content'', ''c'')]) ''title'' \<noteq> [] \<and>
   FormValue (post_request [(''title'', ''t''), (''content'', ''c'')]) ''content'' \<noteq> [] \<and>
   query_err no_faults = None \<and> next_rowid three_notes \<le> MaxInt64 \<and>
   last_insert_id_err no_faults = None \<and>
   createNoteHandler no_faults (post_request [(''title'', ''t''), (''content'', ''c'')]) three_notes =
     (Redirect ''/note?id=4'' StatusSeeOther,
      \<lparr>notes_tbl = [note_a, note_b, note_c, \<lparr>Id_note = 4, Title = ''t'', Content = ''c''\<rparr>],
        seq = 4\<rparr>) \<and>
   createNoteHandler_main no_faults (post_request [(''title'', ''t''), (''content'', ''c'')]) three_notes =
     (Redirect ''/note?id=4'' StatusSeeOther,
      \<lparr>notes_tbl = [note_a, note_b, note_c, \<lparr>Id_note = 4, Title = ''t'', Content = ''c''\<rparr>],
        seq = 4\<rparr>)"
  using create_persists_and_redirects [of "post_request [(''title'', ''t''), (''content'', ''c'')]"
      no_faults three_notes]
  by (simp add: post_request_simps no_faults_simps FormValue_def Get_def next_rowid_three_notes
      show_int_literals MaxInt64_def three_notes_inserted)

text \<open>
  C4. For every request to the create handler whose \<open>title\<close> or \<open>content\<close> form value is
  empty, in both variants: the response is a client error (400, or 405 in the paginated
  variant when the method is not POST) and the table is unchanged.
\<close>

theorem create_rejects_empty:
  assumes "FormValue r ''title'' = [] \<or> FormValue r ''content'' = []"
  shows "createNoteHandler e r d =
      (if Method r = ''POST''
       then HttpError StatusBadRequest (Text ''Title and content are required'')
       else HttpError StatusMethodNotAllowed (Text ''Method not allowed''), d) \<and>
    createNoteHandler_main e r d =
      (HttpError StatusBadRequest (Text ''Title and content are required''), d) \<and>
    400 \<le> StatusBadRequest \<and> StatusBadRequest < 500 \<and>
    400 \<le> StatusMethodNotAllowed \<and> StatusMethodNotAllowed < 500"
  using assms
  by (auto simp add: createNoteHandler_def createNoteHandler_main_def Let_def status_defs)

theorem create_rejects_empty_witness:
  "(FormValue (post_request [(''title'', ''''), (''content'', ''c'')]) ''title'' = [] \<or>
    FormValue (post_request [(''title'', ''''), (''content'', ''c'')]) ''content'' = []) \<and>
   createNoteHandler no_faults (post_request [(''title'', ''''), (''content'', ''c'')]) three_notes =
     (HttpError StatusBadRequest (Text ''Title and content are required''), three_notes) \<and>
   createNoteHandler_main no_faults (post_request [(''title'', ''''), (''content'', ''c'')]) three_notes =
     (HttpError StatusBadRequest (Text ''Title and content are required''), three_notes) \<and>
   (FormValue (post_request [(''title'', ''t'')]) ''title'' = [] \<or>
    FormValue (post_request [(''title'', ''t'')]) ''content'' = []) \<and>
   createNoteHandler no_faults (post_request [(''title'', ''t'')]) three_notes =
     (HttpError StatusBadRequest (Text ''Title and content are required''), three_notes) \<and>
   createNoteHandler_main no_faults (post_request [(''title'', ''t'')]) three_notes =
     (HttpError StatusBadRequest (Text ''Title and content are required''), three_notes)"
  using create_rejects_empty [of "post_request [(''title'', ''''), (''content'', ''c'')]"
      no_faults three_notes]
    create_rejects_empty [of "post_request [(''title'', ''t'')]" no_faults three_notes]
  by (simp add: post_request_simps FormValue_def Get_def)




section \<open>The detail handler\<close>

text \<open>
  C6. For every request to the detail handler, in both variants: an empty \<open>id\<close> gives
  status 400; when the storage reports no error and no row has the key the \<open>id\<close> reads
  as, status 404; when the query or the row iteration fails, or a row is found and its
  scan fails, status 500 with the text of the error; and when a row is found, nothing
  fails and the keys of the table are distinct, the details template is executed on
  exactly that row.
\<close>

theorem detail_cases:
  "(Get (URLQuery r) ''id'' = [] \<longrightarrow>
      detailPage e r d = (HttpError StatusBadRequest (Text ''ID is required''), d) \<and>
      noteDetailPage e r d = (HttpError StatusBadRequest (Text ''ID is required''), d)) \<and>
   (Get (URLQuery r) ''id'' \<noteq> [] \<and> query_err e = None \<and> rows_err e = None \<and>
    (\<forall>k\<in>set (notes_tbl d). text_as_id e (Get (URLQuery r) ''id'') \<noteq> Some (Id_note k)) \<longrightarrow>
      detailPage e r d = (HttpError StatusNotFound (Text ''Note not found''), d) \<and>
      noteDetailPage e r d = (HttpError StatusNotFound (Text ''Note not found''), d)) \<and>
   (Get (URLQuery r) ''id'' \<noteq> [] \<and>
    (query_err e = Some m \<or> query_err e = None \<and> rows_err e = Some m) \<longrightarrow>
      detailPage e r d = (HttpError StatusInternalServerError (ErrorText (ErrOther m)), d) \<and>
      noteDetailPage e r d = (HttpError StatusInternalServerError (ErrorText (ErrOther m)), d)) \<and>
   (Get (URLQuery r) ''id'' \<noteq> [] \<and> query_err e = None \<and> rows_err e = None \<and>
    distinct (map Id_note (notes_tbl d)) \<and> n \<in> set (notes_tbl d) \<and>
    text_as_id e (Get (URLQuery r) ''id'') = Some (Id_note n) \<longrightarrow>
      (scan_err e = Some m \<longrightarrow>
         detailPage e r d = (HttpError StatusInternalServerError (ErrorText (ErrOther m)), d) \<and>
         noteDetailPage e r d = (HttpError StatusInternalServerError (ErrorText (ErrOther m)), d)) \<and>
      (scan_err e = None \<and> template_err e = None \<longrightarrow>
         detailPage e r d = (Render ''details'' html (NotePage n), d) \<and>
         noteDetailPage e r d = (Render ''details'' None (NoteMainPage (scan_main n)), d)))"
proof (intro conjI impI)
  assume "Get (URLQuery r) ''id'' = []"
  then show "detailPage e r d = (HttpError StatusBadRequest (Text ''ID is required''), d)"
    and "noteDetailPage e r d = (HttpError StatusBadRequest (Text ''ID is required''), d)"
    by (simp_all add: detailPage_def noteDetailPage_def)
next
  assume a: "Get (URLQuery r) ''id'' \<noteq> [] \<and> query_err e = None \<and> rows_err e = None \<and>
    (\<forall>k\<in>set (notes_tbl d). text_as_id e (Get (URLQuery r) ''id'') \<noteq> Some (Id_note k))"
  then have "query_row_scan e SelectById [SqlText (Get (URLQuery r) ''id'')] d = Inl ErrNoRows"
    by (intro query_row_scan_none) simp_all
  with a show "detailPage e r d = (HttpError StatusNotFound (Text ''Note not found''), d)"
    and "noteDetailPage e r d = (HttpError StatusNotFound (Text ''Note not found''), d)"
    by (simp_all add: detailPage_def noteDetailPage_def)
next
  assume a: "Get (URLQuery r) ''id'' \<noteq> [] \<and>
    (query_err e = Some m \<or> query_err e = None \<and> rows_err e = Some m)"
  then have "query_row_scan e SelectById [SqlText (Get (URLQuery r) ''id'')] d = Inl (ErrOther m)"
    by (auto simp: query_row_scan_query_err query_row_scan_rows_err)
  with a show "detailPage e r d = (HttpError StatusInternalServerError (ErrorText (ErrOther m)), d)"
    and "noteDetailPage e r d = (HttpError StatusInternalServerError (ErrorText (ErrOther m)), d)"
    by (simp_all add: detailPage_def noteDetailPage_def)
next
  assume a: "Get (URLQuery r) ''id'' \<noteq> [] \<and> query_err e = None \<and> rows_err e = None \<and>
    distinct (map Id_note (notes_tbl d)) \<and> n \<in> set (notes_tbl d) \<and>
    text_as_id e (Get (URLQuery r) ''id'') = Some (Id_note n)"
  then have q: "query_row_scan e SelectById [SqlText (Get (URLQuery r) ''id'')] d =
      (case scan_err e of Some m \<Rightarrow> Inl (ErrOther m) | None \<Rightarrow> Inr n)"
    by (intro query_row_scan_found) simp_all
  {
    assume "scan_err e = Some m"
    with a q show "detailPage e r d = (HttpError StatusInternalServerError (ErrorText (ErrOther m)), d)"
      and "noteDetailPage e r d = (HttpError StatusInternalServerError (ErrorText (ErrOther m)), d)"
      by (simp_all add: detailPage_def noteDetailPage_def)
  next
    assume "scan_err e = None \<and> template_err e = None"
    with a q show "detailPage e r d = (Render ''details'' html (NotePage n), d)"
      and "noteDetailPage e r d = (Render ''details'' None (NoteMainPage (scan_main n)), d)"
      by (simp_all add: detailPage_def noteDetailPage_def execute_def)
  }
qed

theorem detail_cases_witness:
  "detailPage no_faults (get_request []) three_notes =
     (HttpError StatusBadRequest (Text ''ID is required''), three_notes) \<and>
   detailPage no_faults (get_request [(''id'', ''7'')]) three_notes =
     (HttpError StatusNotFound (Text ''Note not found''), three_notes) \<and>
   detailPage (no_faults\<lparr>query_err := Some ''disk I/O error''\<rparr>)
       (get_request [(''id'', ''2'')]) three_notes =
     (HttpError StatusInternalServerError (ErrorText (ErrOther ''disk I/O error'')), three_notes) \<and>
   detailPage (no_faults\<lparr>scan_err := Some ''unsupported Scan''\<rparr>)
       (get_request [(''id'', ''2'')]) three_notes =
     (HttpError StatusInternalServerError (ErrorText (ErrOther ''unsupported Scan'')), three_notes) \<and>
   detailPage no_faults (get_request [(''id'', ''2'')]) three_notes =
     (Render ''details'' html (NotePage note_b), three_notes) \<and>
   noteDetailPage no_faults (get_request [(''id'', ''2'')]) three_notes =
     (Render ''details'' None
        (NoteMainPage \<lparr>Id_main = ''2'', Title_main = ''b'', Content_main = ''y''\<rparr>), three_notes)"
proof -
  have "detailPage no_faults (get_request []) three_notes =
      (HttpError StatusBadRequest (Text ''ID is required''), three_notes)"
    using detail_cases [of "get_request []" no_faults three_notes]
    by (simp add: get_request_simps Get_def)
  moreover have "detailPage no_faults (get_request [(''id'', ''7'')]) three_notes =
      (HttpError StatusNotFound (Text ''Note not found''), three_notes)"
    using detail_cases [of "get_request [(''id'', ''7'')]" no_faults three_notes]
    by (simp add: get_request_simps Get_def no_faults_simps three_notes_simps note_ids
        Atoi_literals)
  moreover have "detailPage (no_faults\<lparr>query_err := Some ''disk I/O error''\<rparr>)
       (get_request [(''id'', ''2'')]) three_notes =
     (HttpError StatusInternalServerError (ErrorText (ErrOther ''disk I/O error'')), three_notes)"
    using detail_cases [of "get_request [(''id'', ''2'')]"
        "no_faults\<lparr>query_err := Some ''disk I/O error''\<rparr>" three_notes "''disk I/O error''"]
    by (simp add: get_request_simps Get_def)
  moreover have "detailPage (no_faults\<lparr>scan_err := Some ''unsupported Scan''\<rparr>)
       (get_request [(''id'', ''2'')]) three_notes =
     (HttpError StatusInternalServerError (ErrorText (ErrOther ''unsupported Scan'')), three_notes)"
    using detail_cases [of "get_request [(''id'', ''2'')]"
        "no_faults\<lparr>scan_err := Some ''unsupported Scan''\<rparr>" three_notes
        "''unsupported Scan''" note_b]
    by (simp add: get_request_simps Get_def no_faults_simps three_notes_simps note_ids
        Atoi_literals)
  moreover have "detailPage no_faults (get_request [(''id'', ''2'')]) three_notes =
      (Render ''details'' html (NotePage note_b), three_notes) \<and>
    noteDetailPage no_faults (get_request [(''id'', ''2'')]) three_notes =
      (Render ''details'' None
        (NoteMainPage \<lparr>Id_main = ''2'', Title_main = ''b'', Content_main = ''y''\<rparr>), three_notes)"
    using detail_cases [of "get_request [(''id'', ''2'')]" no_faults three_notes _ note_b]
    by (simp add: get_request_simps Get_def no_faults_simps three_notes_simps note_ids
        Atoi_literals scan_main_def show_int_2)
      (simp add: note_b_def)
  ultimately show ?thesis
    by simp
qed

section \<open>The remove handler\<close>

text \<open>
  C7. For every request to the remove handler with a non-empty \<open>id\<close>, in both variants,
  when the storage reports no error: if no row has the key the \<open>id\<close> reads as, the
  response is status 404 and the table is unchanged; if a row has it (keys being
  distinct), the table afterwards is the table before without that row, all other rows
  and their order kept, one row shorter, and the response is a see-other redirect to
  \<^verbatim>\<open>/\<close>.
\<close>

theorem remove_cases:
  assumes "Get (URLQuery r) ''id'' \<noteq> []" and "query_err e = None"
    and "rows_affected_err e = None"
  shows "((\<forall>k\<in>set (notes_tbl d). text_as_id e (Get (URLQuery r) ''id'') \<noteq> Some (Id_note k)) \<longrightarrow>
        removeNoteHandler e r d = (HttpError StatusNotFound (Text ''Note not found''), d)) \<and>
    (distinct (map Id_note (notes_tbl d)) \<and> n \<in> set (notes_tbl d) \<and>
     text_as_id e (Get (URLQuery r) ''id'') = Some (Id_note n) \<longrightarrow>
        removeNoteHandler e r d =
          (Redirect ''/'' StatusSeeOther, d\<lparr>notes_tbl := filter (\<lambda>k. k \<noteq> n) (notes_tbl d)\<rparr>) \<and>
        set (filter (\<lambda>k. k \<noteq> n) (notes_tbl d)) = set (notes_tbl d) - {n} \<and>
        length (filter (\<lambda>k. k \<noteq> n) (notes_tbl d)) + 1 = length (notes_tbl d)) \<and>
    removeNoteHandler_main e r d = removeNoteHandler e r d"
proof (intro conjI impI)
  let ?i = "Get (URLQuery r) ''id''"
  have run: "removeNoteHandler e r d =
      (if filter (\<lambda>k. text_as_id e ?i = Some (Id_note k)) (notes_tbl d) = []
       then HttpError StatusNotFound (Text ''Note not found'')
       else Redirect ''/'' StatusSeeOther,
       d\<lparr>notes_tbl := filter (\<lambda>k. text_as_id e ?i \<noteq> Some (Id_note k)) (notes_tbl d)\<rparr>)"
    using assms by (simp add: removeNoteHandler_def db_exec_delete RowsAffected_def)
  {
    assume none: "\<forall>k\<in>set (notes_tbl d). text_as_id e ?i \<noteq> Some (Id_note k)"
    then have "filter (\<lambda>k. text_as_id e ?i = Some (Id_note k)) (notes_tbl d) = []"
      and "filter (\<lambda>k. text_as_id e ?i \<noteq> Some (Id_note k)) (notes_tbl d) = notes_tbl d"
      by (simp_all add: filter_empty_conv filter_id_conv)
    then show "removeNoteHandler e r d = (HttpError StatusNotFound (Text ''Note not found''), d)"
      by (simp add: run)
  }
  {
    assume some: "distinct (map Id_note (notes_tbl d)) \<and> n \<in> set (notes_tbl d) \<and>
      text_as_id e ?i = Some (Id_note n)"
    then have hit: "filter (\<lambda>k. text_as_id e ?i = Some (Id_note k)) (notes_tbl d) = [n]"
      using filter_same_key [of Id_note "notes_tbl d" n] by simp
    from some have rest: "filter (\<lambda>k. text_as_id e ?i \<noteq> Some (Id_note k)) (notes_tbl d) =
        filter (\<lambda>k. k \<noteq> n) (notes_tbl d)"
      using filter_other_key [of Id_note "notes_tbl d" n] by simp
    show "removeNoteHandler e r d =
        (Redirect ''/'' StatusSeeOther, d\<lparr>notes_tbl := filter (\<lambda>k. k \<noteq> n) (notes_tbl d)\<rparr>)"
      by (simp add: run hit rest)
    show "set (filter (\<lambda>k. k \<noteq> n) (notes_tbl d)) = set (notes_tbl d) - {n}"
      by auto
    from some have "distinct (notes_tbl d)"
      by (simp add: distinct_map)
    with some show "length (filter (\<lambda>k. k \<noteq> n) (notes_tbl d)) + 1 = length (notes_tbl d)"
      using length_filter_other [of "notes_tbl d" n] by simp
  }
  show "removeNoteHandler_main e r d = removeNoteHandler e r d"
    by (simp add: removeNoteHandler_main_eq)
qed

theorem remove_cases_witness:
  "Get (URLQuery (get_request [(''id'', ''2'')])) ''id'' \<noteq> [] \<and>
   query_err no_faults = None \<and> rows_affected_err no_faults = None \<and>
   removeNoteHandler no_faults (get_request [(''id'', ''7'')]) three_notes =
     (HttpError StatusNotFound (Text ''Note not found''), three_notes) \<and>
   removeNoteHandler no_faults (get_request [(''id'', ''2'')]) three_notes =
     (Redirect ''/'' StatusSeeOther, \<lparr>notes_tbl = [note_a, note_c], seq = 3\<rparr>) \<and>
   removeNoteHandler_main no_faults (get_request [(''id'', ''2'')]) three_notes =
     (Redirect ''/'' StatusSeeOther, \<lparr>notes_tbl = [note_a, note_c], seq = 3\<rparr>)"
proof -
  have "removeNoteHandler no_faults (get_request [(''id'', ''7'')]) three_notes =
      (HttpError StatusNotFound (Text ''Note not found''), three_notes)"
    using remove_cases [of "get_request [(''id'', ''7'')]" no_faults three_notes]
    by (simp add: get_request_simps Get_def no_faults_simps three_notes_simps note_ids
        Atoi_literals)
  moreover have "note_a \<noteq> note_b" "note_c \<noteq> note_b"
    by (simp_all add: note_a_def note_b_def note_c_def)
  then have "removeNoteHandler no_faults (get_request [(''id'', ''2'')]) three_notes =
      (Redirect ''/'' StatusSeeOther, \<lparr>notes_tbl = [note_a, note_c], seq = 3\<rparr>) \<and>
    removeNoteHandler_main no_faults (get_request [(''id'', ''2'')]) three_notes =
      (Redirect ''/'' StatusSeeOther, \<lparr>notes_tbl = [note_a, note_c], seq = 3\<rparr>)"
    using remove_cases [of "get_request [(''id'', ''2'')]" no_faults three_notes note_b]
    by (simp add: get_request_simps Get_def no_faults_simps three_notes_simps note_ids
        Atoi_literals three_notes_def)
  ultimately show ?thesis
    by (simp add: get_request_simps Get_def no_faults_simps)
qed

section \<open>The discarded error of RowsAffected\<close>

text \<open>
  C10. Both remove handlers and the update handler of the paginated variant read
  \<^verbatim>\<open>rowsAffected, _ := res.RowsAffected()\<close>. For every request with a non-empty \<open>id\<close>:
  whenever the statement executes without error but \<^verbatim>\<open>RowsAffected\<close> reports an error, the
  count read is zero and the response is not-found (404), not a server error (500); what
  the statement did to the table stays.
\<close>

theorem rows_affected_error_discarded:
  assumes "Get (URLQuery r) ''id'' = i" and "i \<noteq> []" and "rows_affected_err e = Some m"
  shows "(db_exec e DeleteNote [SqlText i] d = (Inr res, d') \<longrightarrow>
        RowsAffected e res = (0, Some (ErrOther m)) \<and>
        removeNoteHandler e r d = (HttpError StatusNotFound (Text ''Note not found''), d') \<and>
        removeNoteHandler_main e r d = (HttpError StatusNotFound (Text ''Note not found''), d')) \<and>
    (db_exec e UpdateNote [SqlText i] d = (Inr res, d') \<longrightarrow>
        RowsAffected e res = (0, Some (ErrOther m)) \<and>
        updateNoteHandler e r d = (HttpError StatusNotFound (Text ''Note not found''), d')) \<and>
    StatusNotFound = 404 \<and> StatusInternalServerError = 500"
  using assms
  by (simp add: removeNoteHandler_def removeNoteHandler_main_def updateNoteHandler_def
      RowsAffected_def status_defs)

theorem rows_affected_error_discarded_witness:
  "Get (URLQuery (get_request [(''id'', ''2'')])) ''id'' = ''2'' \<and> ''2'' \<noteq> [] \<and>
   rows_affected_err lost_count = Some ''no RowsAffected available'' \<and>
   db_exec lost_count DeleteNote [SqlText ''2''] three_notes =
     (Inr \<lparr>inserted_id = 0, affected = 1\<rparr>, \<lparr>notes_tbl = [note_a, note_c], seq = 3\<rparr>) \<and>
   removeNoteHandler lost_count (get_request [(''id'', ''2'')]) three_notes =
     (HttpError StatusNotFound (Text ''Note not found''), \<lparr>notes_tbl = [note_a, note_c], seq = 3\<rparr>) \<and>
   removeNoteHandler_main lost_count (get_request [(''id'', ''2'')]) three_notes =
     (HttpError StatusNotFound (Text ''Note not found''), \<lparr>notes_tbl = [note_a, note_c], seq = 3\<rparr>) \<and>
   db_exec (lost_count\<lparr>null_for_missing := True\<rparr>) UpdateNote [SqlText ''2''] three_notes =
     (Inr \<lparr>inserted_id = 0, affected = 0\<rparr>, three_notes) \<and>
   updateNoteHandler (lost_count\<lparr>null_for_missing := True\<rparr>) (get_request [(''id'', ''2'')])
       three_notes =
     (HttpError StatusNotFound (Text ''Note not found''), three_notes)"
proof -
  have del: "db_exec lost_count DeleteNote [SqlText ''2''] three_notes =
      (Inr \<lparr>inserted_id = 0, affected = 1\<rparr>, \<lparr>notes_tbl = [note_a, note_c], seq = 3\<rparr>)"
    by (simp add: db_exec_delete lost_count_def no_faults_simps Atoi_literals three_notes_def
        note_ids)
  have upd: "db_exec (lost_count\<lparr>null_for_missing := True\<rparr>) UpdateNote [SqlText ''2'']
        three_notes = (Inr \<lparr>inserted_id = 0, affected = 0\<rparr>, three_notes)"
    by (simp add: db_exec_update lost_count_def no_faults_simps)
  have err: "rows_affected_err lost_count = Some ''no RowsAffected available''"
    "rows_affected_err (lost_count\<lparr>null_for_missing := True\<rparr>) =
       Some ''no RowsAffected available''"
    by (simp_all add: lost_count_def)
  have id2: "Get (URLQuery (get_request [(''id'', ''2'')])) ''id'' = ''2''"
    by (simp add: get_request_simps Get_def)
  from rows_affected_error_discarded [OF id2 _ err(1),
      of three_notes "\<lparr>inserted_id = 0, affected = 1\<rparr>" "\<lparr>notes_tbl = [note_a, note_c], seq = 3\<rparr>"]
    rows_affected_error_discarded [OF id2 _ err(2),
      of three_notes "\<lparr>inserted_id = 0, affected = 0\<rparr>" three_notes]
    del upd err id2
  show ?thesis
    by simp
qed

section \<open>The update handler\<close>

text \<open>
  C2, as stated, fails in one detail: the UPDATE statement of the update handler has three
  placeholders (\<^verbatim>\<open>title = ?\<close>, \<^verbatim>\<open>content = ?\<close>, \<^verbatim>\<open>id = ?\<close>), not two.
\<close>

theorem update_statement_counterexample:
  "placeholders UpdateNote = 3 \<and> placeholders UpdateNote \<noteq> 2"
  by simp

text \<open>
  C2, amended. The update handler binds one argument, the \<open>id\<close>, to a statement of three
  placeholders. For every request the table is left as it was: the response is 400 for
  an empty \<open>id\<close>, 500 when the statement is refused or fails, and 404 when the storage
  binds NULL to the missing arguments (then \<^verbatim>\<open>WHERE id = NULL\<close> selects no row).
\<close>

theorem update_changes_nothing:
  "placeholders UpdateNote = 3 \<and>
   length [SqlText (Get (URLQuery r) ''id'')] = 1 \<and>
   bind_args e UpdateNote [SqlText (Get (URLQuery r) ''id'')] =
     (if null_for_missing e then Inr [SqlText (Get (URLQuery r) ''id''), SqlNull, SqlNull]
      else Inl ErrArgs) \<and>
   snd (updateNoteHandler e r d) = d \<and>
   fst (updateNoteHandler e r d) =
     (if Get (URLQuery r) ''id'' = [] then HttpError StatusBadRequest (Text ''ID is required'')
      else (case query_err e of
              Some m \<Rightarrow> HttpError StatusInternalServerError (ErrorText (ErrOther m))
            | None \<Rightarrow>
                if null_for_missing e then HttpError StatusNotFound (Text ''Note not found'')
                else HttpError StatusInternalServerError (ErrorText ErrArgs)))"
  by (simp add: updateNoteHandler_result bind_args_update)

section \<open>The invariant of the table\<close>

text \<open>
  C8. Starting from the empty table, after any sequence of create, update and remove
  requests, under any behaviour of the storage, every stored note has a non-empty title
  and a non-empty content, in both variants. The check is the handler's: the storage
  itself accepts an insert of two empty texts.
\<close>

theorem persisted_notes_nonempty:
  "(\<forall>n\<in>set (notes_tbl (run cs empty_db)). Title n \<noteq> [] \<and> Content n \<noteq> []) \<and>
   (\<forall>n\<in>set (notes_tbl (run_main cs empty_db)). Title n \<noteq> [] \<and> Content n \<noteq> []) \<and>
   db_exec no_faults InsertNote [SqlText [], SqlText []] empty_db =
     (Inr \<lparr>inserted_id = 1, affected = 1\<rparr>,
      \<lparr>notes_tbl = [\<lparr>Id_note = 1, Title = [], Content = []\<rparr>], seq = 1\<rparr>)"
proof -
  have start: "list_all filled (notes_tbl empty_db)"
    by (simp add: empty_db_def)
  have "list_all filled (notes_tbl (run cs empty_db))"
    using start by (rule run_filled)
  moreover have "list_all filled (notes_tbl (run_main cs empty_db))"
    using start by (rule run_main_filled)
  moreover have "db_exec no_faults InsertNote [SqlText [], SqlText []] empty_db =
     (Inr \<lparr>inserted_id = 1, affected = 1\<rparr>,
      \<lparr>notes_tbl = [\<lparr>Id_note = 1, Title = [], Content = []\<rparr>], seq = 1\<rparr>)"
    by (simp add: db_exec_insert no_faults_simps next_rowid_def empty_db_def MaxInt64_def)
  ultimately show ?thesis
    by (simp add: list_all_iff filled_def)
qed

theorem persisted_notes_nonempty_witness:
  "notes_tbl (run example_calls empty_db) = [\<lparr>Id_note = 1, Title = ''t'', Content = ''c''\<rparr>] \<and>
   Title (hd (notes_tbl (run example_calls empty_db))) \<noteq> [] \<and>
   Content (hd (notes_tbl (run example_calls empty_db))) \<noteq> [] \<and>
   notes_tbl (run_main example_calls empty_db) = [\<lparr>Id_note = 1, Title = ''t'', Content = ''c''\<rparr>] \<and>
   Title (hd (notes_tbl (run_main example_calls empty_db))) \<noteq> [] \<and>
   Content (hd (notes_tbl (run_main example_calls empty_db))) \<noteq> []"
proof -
  have "hd (notes_tbl (run example_calls empty_db)) \<in> set (notes_tbl (run example_calls empty_db))"
    and "hd (notes_tbl (run_main example_calls empty_db)) \<in>
      set (notes_tbl (run_main example_calls empty_db))"
    by (simp_all add: run_example_calls run_main_example_calls)
  with persisted_notes_nonempty [of example_calls]
  have "Title (hd (notes_tbl (run example_calls empty_db))) \<noteq> [] \<and>
        Content (hd (notes_tbl (run example_calls empty_db))) \<noteq> [] \<and>
        Title (hd (notes_tbl (run_main example_calls empty_db))) \<noteq> [] \<and>
        Content (hd (notes_tbl (run_main example_calls empty_db))) \<noteq> []"
    by blast
  then show ?thesis
    by (simp add: run_example_calls run_main_example_calls)
qed

section \<open>Create, then detail\<close>

text \<open>
  C9. For every POST request with a non-empty \<open>title\<close> and a non-empty \<open>content\<close> on
  which the insert succeeds, in both variants: the create handler redirects to
  \<^verbatim>\<open>/note?id=N\<close>, and the detail handler, asked for that id on the table the create left,
  with a storage that reads the decimal text of \<open>N\<close> as \<open>N\<close> and reports no error, shows
  the note \<open>N\<close> whose title and content are the submitted values.
\<close>

theorem create_detail_roundtrip:
  assumes "Method r = ''POST''"
    and "FormValue r ''title'' \<noteq> []" and "FormValue r ''content'' \<noteq> []"
    and "query_err e = None" and "next_rowid d \<le> MaxInt64" and "last_insert_id_err e = None"
    and "Get (URLQuery r') ''id'' = show_int (next_rowid d)"
    and "text_as_id e' (show_int (next_rowid d)) = Some (next_rowid d)"
    and "query_err e' = None" and "rows_err e' = None" and "scan_err e' = None"
    and "template_err e' = None"
  shows "\<exists>d'.
      createNoteHandler e r d =
        (Redirect (''/note?id='' @ Get (URLQuery r') ''id'') StatusSeeOther, d') \<and>
      detailPage e' r' d' =
        (Render ''details'' html
           (NotePage \<lparr>Id_note = next_rowid d, Title = FormValue r ''title'',
              Content = FormValue r ''content''\<rparr>), d') \<and>
      createNoteHandler_main e r d =
        (Redirect (''/note?id='' @ Get (URLQuery r') ''id'') StatusSeeOther, d') \<and>
      noteDetailPage e' r' d' =
        (Render ''details'' None
           (NoteMainPage \<lparr>Id_main = Get (URLQuery r') ''id'', Title_main = FormValue r ''title'',
              Content_main = FormValue r ''content''\<rparr>), d')"
proof -
  let ?new = "\<lparr>Id_note = next_rowid d, Title = FormValue r ''title'',
      Content = FormValue r ''content''\<rparr>"
  let ?d = "d\<lparr>notes_tbl := notes_tbl d @ [?new], seq := next_rowid d\<rparr>"
  have id: "Get (URLQuery r') ''id'' \<noteq> []"
    by (simp add: assms(7) show_int_def digits_not_Nil)
  have found: "query_row_scan e' SelectById [SqlText (Get (URLQuery r') ''id'')] ?d = Inr ?new"
    unfolding assms(7) using assms(8-11) by (intro query_row_scan_inserted) simp_all
  have "createNoteHandler e r d =
      (Redirect (''/note?id='' @ Get (URLQuery r') ''id'') StatusSeeOther, ?d)"
    using assms(1-6) by (simp add: createNoteHandler_ok assms(7))
  moreover have "createNoteHandler_main e r d =
      (Redirect (''/note?id='' @ Get (URLQuery r') ''id'') StatusSeeOther, ?d)"
    using assms(2-6) by (simp add: createNoteHandler_main_ok assms(7))
  moreover have "detailPage e' r' ?d = (Render ''details'' html (NotePage ?new), ?d)"
    using id found assms(12) by (simp add: detailPage_def execute_def)
  moreover have "noteDetailPage e' r' ?d =
      (Render ''details'' None
         (NoteMainPage \<lparr>Id_main = Get (URLQuery r') ''id'', Title_main = FormValue r ''title'',
            Content_main = FormValue r ''content''\<rparr>), ?d)"
    using id found assms(12) by (simp add: noteDetailPage_def execute_def scan_main_def assms(7))
  ultimately show ?thesis
    by (intro exI [of _ ?d]) simp
qed

theorem create_detail_roundtrip_witness:
  "Method (post_request [(''title'', ''t''), (''content'', ''c'')]) = ''POST'' \<and>
   FormValue (post_request [(''title'', ''t''), (''content'', ''c'')]) ''title'' \<noteq> [] \<and>
   FormValue (post_request [(''title'', ''t''), (''content'', ''c'')]) ''content'' \<noteq> [] \<and>
   query_err no_faults = None \<and> next_rowid three_notes \<le> MaxInt64 \<and>
   last_insert_id_err no_faults = None \<and>
   Get (URLQuery (get_request [(''id'', ''4'')])) ''id'' = show_int (next_rowid three_notes) \<and>
   text_as_id no_faults (show_int (next_rowid three_notes)) = Some (next_rowid three_notes) \<and>
   rows_err no_faults = None \<and> scan_err no_faults = None \<and> template_err no_faults = None \<and>
   (\<exists>d'.
      createNoteHandler no_faults (post_request [(''title'', ''t''), (''content'', ''c'')])
          three_notes =
        (Redirect ''/note?id=4'' StatusSeeOther, d') \<and>
      detailPage no_faults (get_request [(''id'', ''4'')]) d' =
        (Render ''details'' html (NotePage \<lparr>Id_note = 4, Title = ''t'', Content = ''c''\<rparr>), d') \<and>
      createNoteHandler_main no_faults (post_request [(''title'', ''t''), (''content'', ''c'')])
          three_notes =
        (Redirect ''/note?id=4'' StatusSeeOther, d') \<and>
      noteDetailPage no_faults (get_request [(''id'', ''4'')]) d' =
        (Render ''details'' None
           (NoteMainPage \<lparr>Id_main = ''4'', Title_main = ''t'', Content_main = ''c''\<rparr>), d'))"
  using create_detail_roundtrip [of "post_request [(''title'', ''t''), (''content'', ''c'')]"
      no_faults three_notes "get_request [(''id'', ''4'')]" no_faults]
  by (simp add: post_request_simps get_request_simps no_faults_simps FormValue_def Get_def
      next_rowid_three_notes show_int_literals Atoi_4 MaxInt64_def)

end
